theory Spec2Isabelle
  imports Main "HOL-Library.Word"
begin

section \<open>Go strings\<close>

text \<open>
  The transcript processor is the Go program \<^verbatim>\<open>chat-parser/main.go\<close>. A Go string is a
  sequence of bytes: \<^verbatim>\<open>len(s)\<close> counts bytes and \<^verbatim>\<open>s[i:j]\<close> slices bytes, so a string is
  modelled as a \<^typ>\<open>char list\<close> (a \<^typ>\<open>char\<close> is one byte) and a character beyond ASCII
  is the bytes of its UTF-8 encoding.
\<close>

abbreviation NL :: char where
  "NL \<equiv> CHR 0x0A"

text \<open>\<^verbatim>\<open>strings.Split(s, sep)\<close> for a separator of one byte: one more piece than there are
  separators, so the empty string gives one empty piece.\<close>

fun Split :: "string \<Rightarrow> char \<Rightarrow> string list" where
  "Split [] c = [[]]"
| "Split (x # xs) c =
     (if x = c then [] # Split xs c
      else (case Split xs c of [] \<Rightarrow> [[x]] | l # ls \<Rightarrow> (x # l) # ls))"

text \<open>\<^verbatim>\<open>strings.Join(elems, sep)\<close>.\<close>

fun Join :: "string list \<Rightarrow> string \<Rightarrow> string" where
  "Join [] sep = []"
| "Join [x] sep = x"
| "Join (x # y # ys) sep = x @ sep @ Join (y # ys) sep"

text \<open>\<^verbatim>\<open>strings.HasPrefix(s, prefix)\<close>.\<close>

definition HasPrefix :: "string \<Rightarrow> string \<Rightarrow> bool" where
  "HasPrefix s p = (length p \<le> length s \<and> take (length p) s = p)"

text \<open>\<^verbatim>\<open>strings.TrimSpace\<close> removes leading, then trailing, white space as
  \<^verbatim>\<open>unicode.IsSpace\<close> defines it: the six ASCII spaces, U+0085 and U+00A0 (two bytes in
  UTF-8), and U+1680, U+2000 to U+200A, U+2028, U+2029, U+202F, U+205F and U+3000 (three
  bytes). A byte sequence that is not the encoding of one of them is not white space.\<close>

definition asciiSpace :: "char \<Rightarrow> bool" where
  "asciiSpace c = (c \<in> set [CHR 0x09, CHR 0x0A, CHR 0x0B, CHR 0x0C, CHR 0x0D, CHR 0x20])"

definition space2 :: "char \<Rightarrow> char \<Rightarrow> bool" where
  "space2 a b = (a = CHR 0xC2 \<and> (b = CHR 0x85 \<or> b = CHR 0xA0))"

definition space3 :: "char \<Rightarrow> char \<Rightarrow> char \<Rightarrow> bool" where
  "space3 a b c =
     ((a = CHR 0xE1 \<and> b = CHR 0x9A \<and> c = CHR 0x80)
      \<or> (a = CHR 0xE2 \<and> b = CHR 0x80 \<and>
          c \<in> set [CHR 0x80, CHR 0x81, CHR 0x82, CHR 0x83, CHR 0x84, CHR 0x85, CHR 0x86,
                   CHR 0x87, CHR 0x88, CHR 0x89, CHR 0x8A, CHR 0xA8, CHR 0xA9, CHR 0xAF])
      \<or> (a = CHR 0xE2 \<and> b = CHR 0x81 \<and> c = CHR 0x9F)
      \<or> (a = CHR 0xE3 \<and> b = CHR 0x80 \<and> c = CHR 0x80))"

text \<open>Dropping the spaces at the front of a string; with \<open>back\<close> set the string is read
  reversed, so that the bytes of an encoding arrive last byte first.\<close>

fun dropSpaces :: "bool \<Rightarrow> string \<Rightarrow> string" where
  "dropSpaces back (a # b # c # s) =
     (if asciiSpace a then dropSpaces back (b # c # s)
      else if (if back then space2 b a else space2 a b) then dropSpaces back (c # s)
      else if (if back then space3 c b a else space3 a b c) then dropSpaces back s
      else a # b # c # s)"
| "dropSpaces back [a, b] =
     (if asciiSpace a then dropSpaces back [b]
      else if (if back then space2 b a else space2 a b) then []
      else [a, b])"
| "dropSpaces back [a] = (if asciiSpace a then [] else [a])"
| "dropSpaces back [] = []"

definition TrimSpace :: "string \<Rightarrow> string" where
  "TrimSpace s = rev (dropSpaces True (rev (dropSpaces False s)))"

section \<open>Formatting numbers\<close>

text \<open>Go's integer \<^verbatim>\<open>/\<close> and \<^verbatim>\<open>%\<close> truncate towards zero.\<close>

definition quo :: "int \<Rightarrow> int \<Rightarrow> int" where
  "quo a b = sgn a * sgn b * (\<bar>a\<bar> div \<bar>b\<bar>)"

definition rem :: "int \<Rightarrow> int \<Rightarrow> int" where
  "rem a b = a - b * quo a b"

fun decimal :: "nat \<Rightarrow> string" where
  "decimal n =
     (if n < 10 then [''0123456789'' ! n]
      else decimal (n div 10) @ [''0123456789'' ! (n mod 10)])"

text \<open>\<^verbatim>\<open>%0wd\<close> of \<^verbatim>\<open>fmt.Sprintf\<close>: the sign, then zeros up to the width \<open>w\<close>, then the
  digits; \<^verbatim>\<open>%d\<close> is the width 0.\<close>

definition fmt_d :: "nat \<Rightarrow> int \<Rightarrow> string" where
  "fmt_d w i =
     (let sign = (if i < 0 then ''-'' else []); ds = decimal (nat \<bar>i\<bar>)
      in sign @ replicate (w - length sign - length ds) CHR ''0'' @ ds)"

text \<open>\<^verbatim>\<open>formatRelativeTime\<close>, from \<^verbatim>\<open>totalSeconds := int(elapsed.Seconds())\<close> on: the clock
  reading is an input of the model.\<close>

definition formatRelativeTime :: "int \<Rightarrow> string" where
  "formatRelativeTime totalSeconds =
     (let hours = quo totalSeconds 3600;
          minutes = quo (rem totalSeconds 3600) 60;
          seconds = rem totalSeconds 60
      in if hours > 0 then fmt_d 2 hours @ '':'' @ fmt_d 2 minutes @ '':'' @ fmt_d 2 seconds
         else fmt_d 2 minutes @ '':'' @ fmt_d 2 seconds)"

section \<open>Progressive disclosure (annotation content)\<close>

text \<open>
  Lines 192-207 and 274-289 of \<^verbatim>\<open>extractCleanJSONContentWithErrorCheck\<close> are the same code
  up to the constant \<^verbatim>\<open>maxPreviewLength\<close>: they compute \<^verbatim>\<open>preview\<close> and \<^verbatim>\<open>remaining\<close>
  once \<^verbatim>\<open>needsDisclosure\<close> holds. \<^verbatim>\<open>lines[:2]\<close> and \<^verbatim>\<open>s[:maxPreviewLength]\<close> are only
  evaluated under the guards that keep them in range.
\<close>

definition needsDisclosure :: "nat \<Rightarrow> string \<Rightarrow> bool" where
  "needsDisclosure maxPreviewLength s =
     (length (Split s NL) > 2 \<or> length s > maxPreviewLength)"

definition previewRemaining :: "nat \<Rightarrow> string \<Rightarrow> string \<times> string" where
  "previewRemaining maxPreviewLength s =
     (let lines = Split s NL in
      if length lines > 2 then (Join (take 2 lines) [NL], Join (drop 2 lines) [NL])
      else if length s > maxPreviewLength
        then (take maxPreviewLength s @ ''...'', drop maxPreviewLength s)
        else (s, []))"

text \<open>The two \<^verbatim>\<open>fmt.Sprintf\<close> formats that wrap the remainder in a collapsible block.\<close>

definition inputDetails :: "string \<Rightarrow> string \<Rightarrow> string" where
  "inputDetails preview remaining =
     '' with '' @ preview
     @ ''\<newline>\<newline><details>\<newline><summary>Show more input...</summary>\<newline>\<newline>```json\<newline>''
     @ remaining @ ''\<newline>```\<newline>\<newline></details>''"

definition resultDetails :: "string \<Rightarrow> string \<Rightarrow> string \<Rightarrow> string" where
  "resultDetails errorIndicator preview remaining =
     errorIndicator @ [NL] @ preview
     @ ''\<newline>\<newline><details>\<newline><summary>Show more...</summary>\<newline>\<newline>```\<newline>''
     @ remaining @ ''\<newline>```\<newline>\<newline></details>''"

text \<open>Lines 181-216: what a non-empty serialized tool input adds to \<^verbatim>\<open>toolDesc\<close>.\<close>

definition inputDisclosure :: "string \<Rightarrow> string" where
  "inputDisclosure toolInput =
     (if \<not> needsDisclosure 300 toolInput then '' with '' @ toolInput
      else (case previewRemaining 300 toolInput of (preview, remaining) \<Rightarrow>
        if remaining \<noteq> [] then inputDetails preview remaining
        else '' with '' @ preview))"

text \<open>Lines 263-299: the content part of a tool result with non-empty \<^verbatim>\<open>resultContent\<close>.\<close>

definition resultDisclosure :: "string \<Rightarrow> string \<Rightarrow> string" where
  "resultDisclosure errorIndicator resultContent =
     (if \<not> needsDisclosure 400 resultContent then errorIndicator @ [NL] @ resultContent
      else (case previewRemaining 400 resultContent of (preview, remaining) \<Rightarrow>
        if remaining \<noteq> [] then resultDetails errorIndicator preview remaining
        else errorIndicator @ [NL] @ preview))"

section \<open>The event model\<close>

text \<open>
  \<^verbatim>\<open>Message\<close> and the items of \<^verbatim>\<open>msg.Message.Content\<close>, with the fields the program
  reads. A field of Go type \<^verbatim>\<open>interface{}\<close> holds a decoded JSON value of the abstract type
  \<open>'j\<close>, or \<^verbatim>\<open>nil\<close> (\<open>None\<close>).
\<close>

record 'j ContentItem =
  ItemType :: string
  Text :: string
  Name :: string
  Input :: "'j option"
  ItemContent :: "'j option"
  IsError :: bool

record 'j Message =
  Type :: string
  Subtype :: string
  Content :: "'j ContentItem list"
  SessionID :: string
  Model :: string

record ChatEntry =
  LineNumber :: "64 word"
  Speaker :: string
  EntryContent :: string
  Timestamp :: string
  IsJSON :: bool
  RawLine :: string

text \<open>
  The functions of Go's standard library that the program calls and that are not string
  slicing are parameters of the model: \<^verbatim>\<open>json.Unmarshal\<close> into a \<^verbatim>\<open>Message\<close> and into an
  \<^verbatim>\<open>interface{}\<close> (\<open>None\<close> is a returned error), \<^verbatim>\<open>json.Valid\<close>, \<^verbatim>\<open>json.Marshal\<close>,
  \<^verbatim>\<open>json.MarshalIndent\<close> with prefix \<^verbatim>\<open>""\<close> and indent of two spaces, \<^verbatim>\<open>strings.ToUpper\<close>
  and \<^verbatim>\<open>utf8.RuneCountInString\<close> (the width that \<^verbatim>\<open>%-45s\<close> pads to). Every theorem
  below that has a variable \<open>lib\<close> holds for every behaviour of these functions.
\<close>

record 'j golib =
  Unmarshal :: "string \<Rightarrow> 'j Message option"
  UnmarshalAny :: "string \<Rightarrow> 'j option option"
  Valid :: "string \<Rightarrow> bool"
  Marshal :: "'j option \<Rightarrow> string option"
  MarshalIndent :: "'j option \<Rightarrow> string option"
  ToUpper :: "string \<Rightarrow> string"
  RuneCountInString :: "string \<Rightarrow> nat"

section \<open>Constant texts\<close>

abbreviation ESC :: char where
  "ESC \<equiv> CHR 0x1B"

definition ColorReset :: string where "ColorReset = ESC # ''[0m''"
definition ColorBold :: string where "ColorBold = ESC # ''[1m''"
definition ColorDim :: string where "ColorDim = ESC # ''[2m''"
definition ColorRed :: string where "ColorRed = ESC # ''[31m''"
definition ColorGreen :: string where "ColorGreen = ESC # ''[32m''"
definition ColorYellow :: string where "ColorYellow = ESC # ''[33m''"
definition ColorBlue :: string where "ColorBlue = ESC # ''[34m''"
definition ColorMagenta :: string where "ColorMagenta = ESC # ''[35m''"
definition ColorWhite :: string where "ColorWhite = ESC # ''[37m''"
definition ColorGray :: string where "ColorGray = ESC # ''[90m''"

text \<open>The UTF-8 bytes of the wrench, check mark, cross mark, robot, bust and gear signs.\<close>

definition wrench :: string where "wrench = [CHR 0xF0, CHR 0x9F, CHR 0x94, CHR 0xA7]"
definition checkMark :: string where "checkMark = [CHR 0xE2, CHR 0x9C, CHR 0x85]"
definition crossMark :: string where "crossMark = [CHR 0xE2, CHR 0x9D, CHR 0x8C]"
definition robot :: string where "robot = [CHR 0xF0, CHR 0x9F, CHR 0xA4, CHR 0x96]"
definition bust :: string where "bust = [CHR 0xF0, CHR 0x9F, CHR 0x91, CHR 0xA4]"
definition gear :: string where
  "gear = [CHR 0xE2, CHR 0x9A, CHR 0x99, CHR 0xEF, CHR 0xB8, CHR 0x8F]"

definition toolResultIndicator :: string where
  "toolResultIndicator = checkMark @ '' Tool result:''"

definition toolErrorIndicator :: string where
  "toolErrorIndicator = crossMark @ '' Tool error:''"

definition toolResultReceived :: string where
  "toolResultReceived = checkMark @ '' Tool result received''"

definition unknownMessageType :: string where
  "unknownMessageType = ''Unknown message type''"

section \<open>Classification\<close>

text \<open>Lines 238-255 and 580-597, the same code in both classifiers: the text of a tool
  result, pretty-printed when it is JSON, or else the serialized \<^verbatim>\<open>content\<close> value.\<close>

definition resultContentOf :: "'j golib \<Rightarrow> 'j ContentItem \<Rightarrow> string" where
  "resultContentOf lib contentItem =
     (if Text contentItem \<noteq> [] then
        (if Valid lib (Text contentItem) then
           (case UnmarshalAny lib (Text contentItem) of
              None \<Rightarrow> Text contentItem
            | Some jsonObj \<Rightarrow>
                (case MarshalIndent lib jsonObj of
                   None \<Rightarrow> Text contentItem
                 | Some prettyBytes \<Rightarrow> prettyBytes))
         else Text contentItem)
      else (case ItemContent contentItem of
              None \<Rightarrow> []
            | Some v \<Rightarrow> (case MarshalIndent lib (Some v) of None \<Rightarrow> [] | Some contentBytes \<Rightarrow> contentBytes)))"

subsection \<open>\<^verbatim>\<open>formatJSONMessage\<close>: the content of the transcript\<close>

definition formatToolUse :: "'j golib \<Rightarrow> 'j ContentItem \<Rightarrow> string" where
  "formatToolUse lib content =
     (let toolInput = (case Input content of
                         None \<Rightarrow> []
                       | Some v \<Rightarrow> (case Marshal lib (Some v) of None \<Rightarrow> [] | Some inputBytes \<Rightarrow> inputBytes))
      in ColorGreen @ wrench @ '' Using tool: '' @ Name content
         @ (if toolInput \<noteq> [] \<and> toolInput \<noteq> ''{}'' then '' with '' @ toolInput else [])
         @ ColorReset)"

fun formatAssistantItems :: "'j golib \<Rightarrow> 'j ContentItem list \<Rightarrow> string list \<Rightarrow> string list" where
  "formatAssistantItems lib [] contentParts = contentParts"
| "formatAssistantItems lib (content # rest) contentParts =
     (if ItemType content = ''text'' then
        (if Text content \<noteq> [] then formatAssistantItems lib rest (contentParts @ [Text content])
         else formatAssistantItems lib rest contentParts)
      else if ItemType content = ''tool_use'' then
        formatAssistantItems lib rest (contentParts @ [formatToolUse lib content])
      else formatAssistantItems lib rest contentParts)"

definition formatToolResult :: "'j golib \<Rightarrow> 'j ContentItem \<Rightarrow> string" where
  "formatToolResult lib contentItem =
     (let resultContent = resultContentOf lib contentItem
      in if resultContent \<noteq> [] then
           (let errorIndicator =
                  (if IsError contentItem then ColorRed @ toolErrorIndicator @ ColorReset
                   else ColorMagenta @ toolResultIndicator @ ColorReset)
            in errorIndicator @ [NL] @ resultContent)
         else ColorMagenta @ toolResultReceived @ ColorReset)"

fun formatUserItems :: "'j golib \<Rightarrow> 'j ContentItem list \<Rightarrow> string list \<Rightarrow> string list" where
  "formatUserItems lib [] contentParts = contentParts"
| "formatUserItems lib (contentItem # rest) contentParts =
     (if ItemType contentItem = ''tool_result'' then
        formatUserItems lib rest (contentParts @ [formatToolResult lib contentItem])
      else if Text contentItem \<noteq> [] then
        formatUserItems lib rest (contentParts @ [Text contentItem])
      else formatUserItems lib rest contentParts)"

definition formatJSONMessage :: "'j golib \<Rightarrow> 'j Message \<Rightarrow> string \<times> string" where
  "formatJSONMessage lib msg =
     (if Type msg = ''system'' then
        (if Subtype msg = ''init'' then
           (''SYSTEM'', ''Session initialized (ID: '' @ SessionID msg @ '', Model: '' @ Model msg @ '')'')
         else (''SYSTEM'', ''System message''))
      else if Type msg = ''assistant'' then
        (''ASSISTANT'',
         if length (Content msg) > 0 then Join (formatAssistantItems lib (Content msg) []) [NL]
         else [])
      else if Type msg = ''user'' then
        (''USER'',
         if length (Content msg) > 0 then Join (formatUserItems lib (Content msg) []) [NL]
         else [])
      else (ToUpper lib (Type msg), unknownMessageType))"

subsection \<open>\<^verbatim>\<open>extractCleanJSONContentWithErrorCheck\<close>: the content of the annotation\<close>

definition cleanToolUse :: "'j golib \<Rightarrow> 'j ContentItem \<Rightarrow> string" where
  "cleanToolUse lib contentItem =
     (let toolInput = (case Input contentItem of
                         None \<Rightarrow> []
                       | Some v \<Rightarrow> (case MarshalIndent lib (Some v) of None \<Rightarrow> [] | Some inputBytes \<Rightarrow> inputBytes));
          toolDesc = wrench @ '' Using tool: '' @ Name contentItem
      in if toolInput \<noteq> [] \<and> toolInput \<noteq> ''{}'' then toolDesc @ inputDisclosure toolInput
         else toolDesc)"

fun cleanAssistantItems :: "'j golib \<Rightarrow> 'j ContentItem list \<Rightarrow> string list \<Rightarrow> string list" where
  "cleanAssistantItems lib [] contentParts = contentParts"
| "cleanAssistantItems lib (contentItem # rest) contentParts =
     (if ItemType contentItem = ''text'' then
        (if Text contentItem \<noteq> [] then
           cleanAssistantItems lib rest (contentParts @ [Text contentItem])
         else cleanAssistantItems lib rest contentParts)
      else if ItemType contentItem = ''tool_use'' then
        cleanAssistantItems lib rest (contentParts @ [cleanToolUse lib contentItem])
      else cleanAssistantItems lib rest contentParts)"

definition cleanToolResult :: "'j golib \<Rightarrow> 'j ContentItem \<Rightarrow> string" where
  "cleanToolResult lib contentItem =
     (let resultContent = resultContentOf lib contentItem
      in if resultContent \<noteq> [] then
           (let errorIndicator =
                  (if IsError contentItem then toolErrorIndicator else toolResultIndicator)
            in resultDisclosure errorIndicator resultContent)
         else toolResultReceived)"

fun cleanUserItems ::
  "'j golib \<Rightarrow> 'j ContentItem list \<Rightarrow> string list \<Rightarrow> bool \<Rightarrow> string list \<times> bool" where
  "cleanUserItems lib [] contentParts hasError = (contentParts, hasError)"
| "cleanUserItems lib (contentItem # rest) contentParts hasError =
     (if ItemType contentItem = ''tool_result'' then
        cleanUserItems lib rest (contentParts @ [cleanToolResult lib contentItem])
          (if IsError contentItem then True else hasError)
      else if Text contentItem \<noteq> [] then
        cleanUserItems lib rest (contentParts @ [Text contentItem]) hasError
      else cleanUserItems lib rest contentParts hasError)"

text \<open>The result is \<^verbatim>\<open>(speaker, content, hasError)\<close>.\<close>

definition extractCleanJSONContentWithErrorCheck ::
  "'j golib \<Rightarrow> 'j Message \<Rightarrow> string \<times> string \<times> bool" where
  "extractCleanJSONContentWithErrorCheck lib msg =
     (if Type msg = ''system'' then
        (if Subtype msg = ''init'' then
           (''SYSTEM'',
            ''Session initialized (ID: '' @ SessionID msg @ '', Model: '' @ Model msg @ '')'',
            False)
         else (''SYSTEM'', ''System message'', False))
      else if Type msg = ''assistant'' then
        (''ASSISTANT'',
         (if length (Content msg) > 0 then
            Join (cleanAssistantItems lib (Content msg) []) [NL, NL]
          else []),
         False)
      else if Type msg = ''user'' then
        (if length (Content msg) > 0 then
           (case cleanUserItems lib (Content msg) [] False of
              (contentParts, hasError) \<Rightarrow> (''USER'', Join contentParts [NL, NL], hasError))
         else (''USER'', [], False))
      else (ToUpper lib (Type msg), unknownMessageType, False))"

section \<open>The run: global state, renderer, annotation emitter, the two loops\<close>

text \<open>One call of \<^verbatim>\<open>buildkite-agent annotate --style s --context c --priority 5\<close> with the
  markdown on its standard input.\<close>

record annotation =
  annStyle :: string
  annContext :: string
  annStdin :: string

text \<open>
  The state of a run: the global \<^verbatim>\<open>staticLineNum\<close> (a Go \<^verbatim>\<open>int\<close>, 64 bits on the platforms
  the tool is built for), what was written to standard output (one element per
  \<^verbatim>\<open>Printf\<close>/\<^verbatim>\<open>Println\<close>), the \<^verbatim>\<open>buildkite-agent\<close> commands run, the lines written by
  \<^verbatim>\<open>log.Printf\<close>, and what was written to the capture file. \<open>entries\<close> is a trace of the
  entries that \<^verbatim>\<open>parseLine\<close> returned, kept to state properties; the program discards
  each entry after its turn.
\<close>

record world =
  staticLineNum :: "64 word"
  stdout :: "string list"
  annotateCalls :: "annotation list"
  logOutput :: "string list"
  outputFile :: "string list"
  entries :: "ChatEntry list"

text \<open>The outcome of \<^verbatim>\<open>cmd.Run()\<close> is the environment's: given the number of earlier
  calls and the command, \<open>None\<close> for success or the error's text.\<close>

type_synonym sink = "nat \<Rightarrow> annotation \<Rightarrow> string option"

text \<open>What \<^verbatim>\<open>bufio.Scanner\<close> delivers: the lines, each with the clock reading
  \<^verbatim>\<open>int(time.Since(startTime).Seconds())\<close> of the moment it is processed, and the error
  \<^verbatim>\<open>scanner.Err()\<close> reports once \<^verbatim>\<open>Scan\<close> has returned false.\<close>

record scanner =
  tokens :: "(string \<times> int) list"
  scanErr :: "string option"

definition parseLine ::
  "'j golib \<Rightarrow> world \<Rightarrow> int \<Rightarrow> string \<Rightarrow> ChatEntry option \<times> world" where
  "parseLine lib w totalSeconds line0 =
     (let line = TrimSpace line0 in
      if line = [] then (None, w)
      else
        (let w' = w\<lparr>staticLineNum := staticLineNum w + 1\<rparr>;
             entry = \<lparr>LineNumber = staticLineNum w', Speaker = [], EntryContent = [],
                      Timestamp = formatRelativeTime totalSeconds, IsJSON = False,
                      RawLine = line\<rparr>;
             content = line
         in if HasPrefix content ''{'' then
              (case Unmarshal lib content of
                 Some msg \<Rightarrow>
                   (case formatJSONMessage lib msg of
                      (speaker, c) \<Rightarrow>
                        (Some (entry\<lparr>IsJSON := True, Speaker := speaker, EntryContent := c\<rparr>), w'))
               | None \<Rightarrow> (Some (entry\<lparr>Speaker := ''SYSTEM'', EntryContent := content\<rparr>), w'))
            else (Some (entry\<lparr>Speaker := ''SYSTEM'', EntryContent := content\<rparr>), w')))"

text \<open>\<^verbatim>\<open>printSingleEntry\<close>: the texts written to standard output, in order.\<close>

definition printSingleEntry :: "'j golib \<Rightarrow> ChatEntry \<Rightarrow> string list" where
  "printSingleEntry lib entry =
     (if EntryContent entry = [] then []
      else
        (let (speakerColor, contentColor) =
               (if Speaker entry = ''ASSISTANT'' then (ColorGreen @ ColorBold, ColorGreen)
                else if Speaker entry = ''USER'' then (ColorBlue @ ColorBold, ColorBlue)
                else if Speaker entry = ''SYSTEM'' then (ColorYellow @ ColorBold, ColorGray)
                else (ColorWhite, ColorWhite));
             prefix = ColorGray @ ''['' @ fmt_d 3 (sint (LineNumber entry)) @ ''] ''
                      @ ColorDim @ ''['' @ Timestamp entry @ '']'' @ ColorReset @ '' ''
                      @ speakerColor @ Speaker entry @ '':'' @ ColorReset;
             lines = Split (EntryContent entry) NL
         in (case lines of
               [] \<Rightarrow> []
             | line # others \<Rightarrow>
                 (prefix @ replicate (45 - RuneCountInString lib prefix) CHR '' ''
                  @ '' '' @ contentColor @ line @ ColorReset @ [NL])
                 # map (\<lambda>line. contentColor @ line @ ColorReset @ [NL]) others)
            @ (if IsJSON entry then [[NL]] else [])))"

text \<open>\<^verbatim>\<open>createBuildkiteAnnotation\<close> up to the construction of the command (lines 46-143):
  \<open>None\<close> when the function returns before it runs anything.\<close>

definition annotationCommand ::
  "'j golib \<Rightarrow> string \<Rightarrow> 64 word \<Rightarrow> string \<Rightarrow> annotation option" where
  "annotationCommand lib rawJSONLine0 lineNumber timestamp =
     (let rawJSONLine = TrimSpace rawJSONLine0 in
      if rawJSONLine = [] then None
      else
        (let title = ''**Message '' @ fmt_d 0 (sint lineNumber) @ ''** - `'' @ timestamp
                     @ ''`\<newline>\<newline>'';
             classified =
               (if HasPrefix rawJSONLine ''{'' then
                  (case Unmarshal lib rawJSONLine of
                     Some msg \<Rightarrow>
                       (case extractCleanJSONContentWithErrorCheck lib msg of
                          (speaker, content, hasError) \<Rightarrow>
                            if content = unknownMessageType then None
                            else Some (speaker, content, hasError))
                   | None \<Rightarrow> Some (''SYSTEM'', rawJSONLine, False))
                else Some (''SYSTEM'', rawJSONLine, False))
         in case classified of
              None \<Rightarrow> None
            | Some (speaker, content, hasError) \<Rightarrow>
                (let (header, style) =
                       (if speaker = ''ASSISTANT'' then
                          (robot @ '' **ASSISTANT**:\<newline>\<newline>'', ''info'')
                        else if speaker = ''USER'' then
                          (bust @ '' **USER**:\<newline>\<newline>'',
                           if hasError then ''error'' else ''success'')
                        else if speaker = ''SYSTEM'' then
                          (gear @ '' **SYSTEM**:\<newline>\<newline>'', ''warning'')
                        else (''**'' @ speaker @ ''**:\<newline>\<newline>'', ''info''));
                     body = (if content \<noteq> [] then content else []);
                     jsonText =
                       (if HasPrefix rawJSONLine ''{'' then
                          (case UnmarshalAny lib rawJSONLine of
                             Some jsonObj \<Rightarrow>
                               (case MarshalIndent lib jsonObj of
                                  Some prettyJSON \<Rightarrow> prettyJSON
                                | None \<Rightarrow> rawJSONLine)
                           | None \<Rightarrow> rawJSONLine)
                        else rawJSONLine)
                 in Some \<lparr>annStyle = style,
                          annContext = ''chat-message-'' @ fmt_d 0 (sint lineNumber),
                          annStdin = title @ header @ body
                            @ ''\<newline>\<newline><details>\<newline><summary>Show JSON</summary>\<newline>\<newline>```json\<newline>''
                            @ jsonText @ ''\<newline>```\<newline>\<newline></details>''\<rparr>)))"

text \<open>\<^verbatim>\<open>createBuildkiteAnnotation\<close>: the command is run, and a failure is logged.\<close>

definition createBuildkiteAnnotation ::
  "'j golib \<Rightarrow> sink \<Rightarrow> world \<Rightarrow> string \<Rightarrow> 64 word \<Rightarrow> string \<Rightarrow> world" where
  "createBuildkiteAnnotation lib sink w rawJSONLine lineNumber timestamp =
     (case annotationCommand lib rawJSONLine lineNumber timestamp of
        None \<Rightarrow> w
      | Some cmd \<Rightarrow>
          (let err = sink (length (annotateCalls w)) cmd;
               w' = w\<lparr>annotateCalls := annotateCalls w @ [cmd]\<rparr>
           in case err of
                None \<Rightarrow> w'
              | Some e \<Rightarrow>
                  w'\<lparr>logOutput := logOutput w'
                        @ [''Warning: Failed to create Buildkite annotation: '' @ e]\<rparr>))"

text \<open>The body of the loop of \<^verbatim>\<open>parseAndStreamOutput\<close>, for each line the scanner
  delivers.\<close>

fun streamLines :: "'j golib \<Rightarrow> sink \<Rightarrow> (string \<times> int) list \<Rightarrow> world \<Rightarrow> world" where
  "streamLines lib sink [] w = w"
| "streamLines lib sink ((line, totalSeconds) # rest) w =
     (case parseLine lib w totalSeconds line of
        (None, w1) \<Rightarrow> streamLines lib sink rest w1
      | (Some entry, w1) \<Rightarrow>
          (let w2 = w1\<lparr>entries := entries w1 @ [entry]\<rparr>;
               w3 = w2\<lparr>stdout := stdout w2 @ printSingleEntry lib entry\<rparr>
           in streamLines lib sink rest
                (createBuildkiteAnnotation lib sink w3 line (LineNumber entry) (Timestamp entry))))"

text \<open>\<^verbatim>\<open>parseAndStreamOutput\<close>: the state at the end, and the message of \<^verbatim>\<open>log.Fatalf\<close>
  when the scanner stopped on an error.\<close>

definition parseAndStreamOutput ::
  "'j golib \<Rightarrow> sink \<Rightarrow> scanner \<Rightarrow> world \<Rightarrow> world \<times> string option" where
  "parseAndStreamOutput lib sink sc w =
     (streamLines lib sink (tokens sc) w,
      case scanErr sc of None \<Rightarrow> None | Some err \<Rightarrow> Some (''Error reading input: '' @ err))"

text \<open>The loop of \<^verbatim>\<open>parseAndStreamOutputWithFile\<close>: \<^verbatim>\<open>fmt.Fprintln(outputFile, line)\<close>
  comes first.\<close>

fun streamLinesWithFile :: "'j golib \<Rightarrow> sink \<Rightarrow> (string \<times> int) list \<Rightarrow> world \<Rightarrow> world" where
  "streamLinesWithFile lib sink [] w = w"
| "streamLinesWithFile lib sink ((line, totalSeconds) # rest) w =
     (let w0 = w\<lparr>outputFile := outputFile w @ [line @ [NL]]\<rparr> in
      case parseLine lib w0 totalSeconds line of
        (None, w1) \<Rightarrow> streamLinesWithFile lib sink rest w1
      | (Some entry, w1) \<Rightarrow>
          (let w2 = w1\<lparr>entries := entries w1 @ [entry]\<rparr>;
               w3 = w2\<lparr>stdout := stdout w2 @ printSingleEntry lib entry\<rparr>
           in streamLinesWithFile lib sink rest
                (createBuildkiteAnnotation lib sink w3 line (LineNumber entry) (Timestamp entry))))"

text \<open>\<^verbatim>\<open>parseAndStreamOutputWithFile\<close>: \<open>createErr\<close> is the outcome of \<^verbatim>\<open>os.Create\<close>, which
  empties the file when it succeeds.\<close>

definition parseAndStreamOutputWithFile ::
  "'j golib \<Rightarrow> sink \<Rightarrow> string option \<Rightarrow> string \<Rightarrow> scanner \<Rightarrow> world \<Rightarrow> world \<times> string option" where
  "parseAndStreamOutputWithFile lib sink createErr outputFilename sc w =
     (case createErr of
        Some err \<Rightarrow>
          (w, Some (''Error creating output file '' @ [CHR 0x27] @ outputFilename @ [CHR 0x27]
                    @ '': '' @ err))
      | None \<Rightarrow>
          (streamLinesWithFile lib sink (tokens sc) (w\<lparr>outputFile := []\<rparr>),
           case scanErr sc of None \<Rightarrow> None | Some err \<Rightarrow> Some (''Error reading input: '' @ err)))"

text \<open>The state in which \<^verbatim>\<open>main\<close> starts a loop: the counter is 0 and nothing has been
  done yet (the header \<^verbatim>\<open>main\<close> prints is left out).\<close>

definition initialWorld :: world where
  "initialWorld = \<lparr>staticLineNum = 0, stdout = [], annotateCalls = [], logOutput = [],
                    outputFile = [], entries = []\<rparr>"

section \<open>Notions used in the statements\<close>

text \<open>The entry that \<^verbatim>\<open>parseLine\<close> returns when the counter is \<open>n\<close>; it depends on nothing
  else in the state.\<close>

definition classify :: "'j golib \<Rightarrow> 64 word \<Rightarrow> int \<Rightarrow> string \<Rightarrow> ChatEntry option" where
  "classify lib n totalSeconds line = fst (parseLine lib (initialWorld\<lparr>staticLineNum := n\<rparr>) totalSeconds line)"

text \<open>The warnings that a sequence of commands leaves in the log, the first of them being
  call number \<open>n\<close>.\<close>

fun sinkWarnings :: "sink \<Rightarrow> nat \<Rightarrow> annotation list \<Rightarrow> string list" where
  "sinkWarnings sink n [] = []"
| "sinkWarnings sink n (cmd # cmds) =
     (case sink n cmd of
        None \<Rightarrow> []
      | Some e \<Rightarrow> [''Warning: Failed to create Buildkite annotation: '' @ e])
     @ sinkWarnings sink (Suc n) cmds"


text \<open>The lines that are not blank after trimming, in order, each with the entry that
  \<^verbatim>\<open>parseLine\<close> makes of it when the counter is \<open>n\<close> at the first of them.\<close>

fun lineEntries :: "'j golib \<Rightarrow> 64 word \<Rightarrow> (string \<times> int) list \<Rightarrow> (string \<times> ChatEntry) list" where
  "lineEntries lib n [] = []"
| "lineEntries lib n ((line, t) # rest) =
     (case classify lib n t line of
        None \<Rightarrow> lineEntries lib n rest
      | Some e \<Rightarrow> (line, e) # lineEntries lib (n + 1) rest)"

text \<open>The annotation commands that the emitter builds for these lines and entries.\<close>

definition commandsFor :: "'j golib \<Rightarrow> (string \<times> ChatEntry) list \<Rightarrow> annotation list" where
  "commandsFor lib les =
     concat (map (\<lambda>(line, e).
       case annotationCommand lib line (LineNumber e) (Timestamp e) of
         None \<Rightarrow> []
       | Some cmd \<Rightarrow> [cmd]) les)"

text \<open>The number of lines that are not blank after trimming.\<close>

definition nonBlank :: "(string \<times> int) list \<Rightarrow> nat" where
  "nonBlank toks = length (filter (\<lambda>(line, t). TrimSpace line \<noteq> []) toks)"


text \<open>What one content item adds to \<^verbatim>\<open>contentParts\<close> in each of the four loops: nothing,
  or one part.\<close>

definition assistantPartFormat :: "'j golib \<Rightarrow> 'j ContentItem \<Rightarrow> string list" where
  "assistantPartFormat lib item =
     (if ItemType item = ''text'' then (if Text item \<noteq> [] then [Text item] else [])
      else if ItemType item = ''tool_use'' then [formatToolUse lib item]
      else [])"

definition assistantPartClean :: "'j golib \<Rightarrow> 'j ContentItem \<Rightarrow> string list" where
  "assistantPartClean lib item =
     (if ItemType item = ''text'' then (if Text item \<noteq> [] then [Text item] else [])
      else if ItemType item = ''tool_use'' then [cleanToolUse lib item]
      else [])"

definition userPartFormat :: "'j golib \<Rightarrow> 'j ContentItem \<Rightarrow> string list" where
  "userPartFormat lib item =
     (if ItemType item = ''tool_result'' then [formatToolResult lib item]
      else if Text item \<noteq> [] then [Text item]
      else [])"

definition userPartClean :: "'j golib \<Rightarrow> 'j ContentItem \<Rightarrow> string list" where
  "userPartClean lib item =
     (if ItemType item = ''tool_result'' then [cleanToolResult lib item]
      else if Text item \<noteq> [] then [Text item]
      else [])"

text \<open>A sink that never fails.\<close>

definition sinkOK :: sink where
  "sinkOK n cmd = None"

text \<open>A sink that always fails.\<close>

definition sinkDown :: sink where
  "sinkDown n cmd = Some ''exit status 1''"

section \<open>Example inputs\<close>

text \<open>
  Four input lines, and the values of the library functions at the texts that the
  examples below pass to them: the four lines are the only JSON among these texts, the
  array does not decode into a \<^verbatim>\<open>Message\<close>, the decoded values are numbered 0 to 3, object
  keys are serialized in sorted order, and all the texts are ASCII.
\<close>

definition emptyAssistantLine :: string where
  \<open>emptyAssistantLine = ''{"type":"assistant","message":{"content":[]}}''\<close>

definition resultLine :: string where
  \<open>resultLine = ''{"type":"result"}''\<close>

definition arrayLine :: string where
  \<open>arrayLine = ''[1, 2]''\<close>

definition sentinelLine :: string where
  \<open>sentinelLine =
     ''{"type":"assistant","message":{"content":[{"type":"text","text":"Unknown message type"}]}}''\<close>

definition upperASCII :: "char \<Rightarrow> char" where
  "upperASCII c =
     (if 97 \<le> (of_char c :: nat) \<and> (of_char c :: nat) \<le> 122 then char_of (of_char c - (32 :: nat))
      else c)"

definition exampleLib :: "nat golib" where
  \<open>exampleLib =
     \<lparr>Unmarshal = (\<lambda>s.
        if s = emptyAssistantLine then
          Some \<lparr>Type = ''assistant'', Subtype = [], Content = [], SessionID = [], Model = []\<rparr>
        else if s = resultLine then
          Some \<lparr>Type = ''result'', Subtype = [], Content = [], SessionID = [], Model = []\<rparr>
        else if s = sentinelLine then
          Some \<lparr>Type = ''assistant'', Subtype = [],
                Content = [\<lparr>ItemType = ''text'', Text = ''Unknown message type'', Name = [],
                            Input = None, ItemContent = None, IsError = False\<rparr>],
                SessionID = [], Model = []\<rparr>
        else None),
      UnmarshalAny = (\<lambda>s.
        if s = emptyAssistantLine then Some (Some 0)
        else if s = resultLine then Some (Some 1)
        else if s = arrayLine then Some (Some 2)
        else if s = sentinelLine then Some (Some 3)
        else None),
      Valid = (\<lambda>s. s = emptyAssistantLine \<or> s = resultLine \<or> s = arrayLine \<or> s = sentinelLine),
      Marshal = (\<lambda>v.
        if v = Some 0 then Some ''{"message":{"content":[]},"type":"assistant"}''
        else if v = Some 1 then Some ''{"type":"result"}''
        else if v = Some 2 then Some ''[1,2]''
        else if v = Some 3 then
          Some ''{"message":{"content":[{"text":"Unknown message type","type":"text"}]},"type":"assistant"}''
        else if v = None then Some ''null''
        else None),
      MarshalIndent = (\<lambda>v.
        if v = Some 0 then
          Some ''{\<newline>  "message": {\<newline>    "content": []\<newline>  },\<newline>  "type": "assistant"\<newline>}''
        else if v = Some 1 then Some ''{\<newline>  "type": "result"\<newline>}''
        else if v = Some 2 then Some ''[\<newline>  1,\<newline>  2\<newline>]''
        else if v = Some 3 then
          Some (''{\<newline>  "message": {\<newline>    "content": [\<newline>      {\<newline>''
                @ ''        "text": "Unknown message type",\<newline>        "type": "text"\<newline>''
                @ ''      }\<newline>    ]\<newline>  },\<newline>  "type": "assistant"\<newline>}'')
        else if v = None then Some ''null''
        else None),
      ToUpper = map upperASCII,
      RuneCountInString = length\<rparr>\<close>

text \<open>Four decoded messages: a tool result that is an error and has neither text nor
  content, one that is an error with the text \<^verbatim>\<open>boom\<close>, an assistant message of two texts,
  and a tool result of three lines.\<close>

definition errorNoContent :: "nat Message" where
  "errorNoContent =
     \<lparr>Type = ''user'', Subtype = [],
      Content = [\<lparr>ItemType = ''tool_result'', Text = [], Name = [], Input = None,
                  ItemContent = None, IsError = True\<rparr>],
      SessionID = [], Model = []\<rparr>"

definition errorBoom :: "nat Message" where
  "errorBoom =
     \<lparr>Type = ''user'', Subtype = [],
      Content = [\<lparr>ItemType = ''tool_result'', Text = ''boom'', Name = [], Input = None,
                  ItemContent = None, IsError = True\<rparr>],
      SessionID = [], Model = []\<rparr>"

definition twoTexts :: "nat Message" where
  "twoTexts =
     \<lparr>Type = ''assistant'', Subtype = [],
      Content = [\<lparr>ItemType = ''text'', Text = ''a'', Name = [], Input = None,
                  ItemContent = None, IsError = False\<rparr>,
                 \<lparr>ItemType = ''text'', Text = ''b'', Name = [], Input = None,
                  ItemContent = None, IsError = False\<rparr>],
      SessionID = [], Model = []\<rparr>"

definition threeLineResult :: "nat Message" where
  "threeLineResult =
     \<lparr>Type = ''user'', Subtype = [],
      Content = [\<lparr>ItemType = ''tool_result'', Text = ''l1\<newline>l2\<newline>l3'', Name = [],
                  Input = None, ItemContent = None, IsError = False\<rparr>],
      SessionID = [], Model = []\<rparr>"

section \<open>Facts about splitting and joining\<close>

lemma Split_not_Nil: "Split s c \<noteq> []"
  by (induction s) (auto split: list.splits)

lemma Join_Cons: "ls \<noteq> [] \<Longrightarrow> Join (l # ls) sep = l @ sep @ Join ls sep"
  by (cases ls) simp_all

lemma Join_Split: "Join (Split s c) [c] = s"
proof (induction s)
  case Nil
  show ?case by simp
next
  case (Cons x xs)
  obtain l ls where sp: "Split xs c = l # ls"
    using Split_not_Nil [of xs c] by (cases "Split xs c") auto
  show ?case
  proof (cases "x = c")
    case True
    with Cons sp show ?thesis by (simp add: Join_Cons)
  next
    case False
    with Cons sp show ?thesis by (cases ls) auto
  qed
qed

lemma Join_take2_drop2:
  assumes "2 < length ls"
  shows "Join (take 2 ls) sep @ sep @ Join (drop 2 ls) sep = Join ls sep"
proof -
  from assms obtain a b c rest where ls: "ls = a # b # c # rest"
    by (cases ls; cases "tl ls"; cases "tl (tl ls)") auto
  show ?thesis unfolding ls by (simp add: numeral_2_eq_2)
qed

lemma Join_eq_Nil: "Join ls [c] = [] \<Longrightarrow> ls = [] \<or> ls = [[]]"
  by (cases ls; cases "tl ls") auto

lemma previewRemaining_lines:
  assumes "2 < length (Split s NL)"
  shows "previewRemaining T s = (Join (take 2 (Split s NL)) [NL], Join (drop 2 (Split s NL)) [NL])"
    and "fst (previewRemaining T s) @ [NL] @ snd (previewRemaining T s) = s"
proof -
  show a: "previewRemaining T s = (Join (take 2 (Split s NL)) [NL], Join (drop 2 (Split s NL)) [NL])"
    using assms by (simp add: previewRemaining_def Let_def)
  show "fst (previewRemaining T s) @ [NL] @ snd (previewRemaining T s) = s"
    unfolding a using Join_take2_drop2 [OF assms, of "[NL]"] by (simp add: Join_Split)
qed

lemma previewRemaining_long:
  assumes "\<not> 2 < length (Split s NL)" "T < length s"
  shows "previewRemaining T s = (take T s @ ''...'', drop T s)"
    and "snd (previewRemaining T s) \<noteq> []"
  using assms by (simp_all add: previewRemaining_def Let_def)

lemma previewRemaining_empty_rest:
  assumes "2 < length (Split s NL)" "snd (previewRemaining T s) = []"
  shows "length (Split s NL) = 3" and "s = fst (previewRemaining T s) @ [NL]"
proof -
  have d: "Join (drop 2 (Split s NL)) [NL] = []"
    using assms by (simp add: previewRemaining_lines(1))
  have "drop 2 (Split s NL) \<noteq> []" using assms(1) by simp
  with Join_eq_Nil [OF d] have e: "drop 2 (Split s NL) = [[]]" by simp
  then have "length (drop 2 (Split s NL)) = 1" by simp
  then show "length (Split s NL) = 3" by simp
  show "s = fst (previewRemaining T s) @ [NL]"
    using previewRemaining_lines(2) [OF assms(1), of T] assms(2) by simp
qed



section \<open>Progressive disclosure keeps the content\<close>

lemma Split_no_sep: "c \<notin> set s \<Longrightarrow> Split s c = [s]"
  by (induction s) auto

lemma resultDisclosure_inline:
  "length (Split s NL) \<le> 2 \<Longrightarrow> length s \<le> 400 \<Longrightarrow> resultDisclosure ind s = ind @ [NL] @ s"
  by (simp add: resultDisclosure_def needsDisclosure_def)

lemma inputDisclosure_inline:
  "length (Split s NL) \<le> 2 \<Longrightarrow> length s \<le> 300 \<Longrightarrow> inputDisclosure s = '' with '' @ s"
  by (simp add: inputDisclosure_def needsDisclosure_def)

lemma resultDisclosure_split:
  assumes "\<not> (length (Split s NL) \<le> 2 \<and> length s \<le> 400)"
  shows "resultDisclosure ind s =
           (if snd (previewRemaining 400 s) \<noteq> []
            then resultDetails ind (fst (previewRemaining 400 s)) (snd (previewRemaining 400 s))
            else ind @ [NL] @ fst (previewRemaining 400 s))"
  using assms by (auto simp: resultDisclosure_def needsDisclosure_def split: prod.splits)

lemma inputDisclosure_split:
  assumes "\<not> (length (Split s NL) \<le> 2 \<and> length s \<le> 300)"
  shows "inputDisclosure s =
           (if snd (previewRemaining 300 s) \<noteq> []
            then inputDetails (fst (previewRemaining 300 s)) (snd (previewRemaining 300 s))
            else '' with '' @ fst (previewRemaining 300 s))"
  using assms by (auto simp: inputDisclosure_def needsDisclosure_def split: prod.splits)

lemma remaining_empty_only_trailing_newline:
  assumes "\<not> (length (Split s NL) \<le> 2 \<and> length s \<le> T)" "snd (previewRemaining T s) = []"
  shows "length (Split s NL) = 3 \<and> s = fst (previewRemaining T s) @ [NL]"
proof (cases "2 < length (Split s NL)")
  case True
  then show ?thesis using previewRemaining_empty_rest [OF True assms(2)] by simp
next
  case False
  with assms(1) have "T < length s" by simp
  from previewRemaining_long(2) [OF False this] assms(2) show ?thesis by simp
qed

lemma length_preview_remaining:
  assumes "\<not> (length (Split s NL) \<le> 2 \<and> length s \<le> T)"
  shows "length (fst (previewRemaining T s)) + length (snd (previewRemaining T s))
           = (if 2 < length (Split s NL) then length s - 1 else length s + 3)"
proof (cases "2 < length (Split s NL)")
  case True
  have "length (fst (previewRemaining T s) @ [NL] @ snd (previewRemaining T s)) = length s"
    by (simp only: previewRemaining_lines(2) [OF True])
  with True show ?thesis by simp
next
  case False
  with assms have "T < length s" by simp
  from previewRemaining_long(1) [OF False this] False show ?thesis by simp
qed

lemma resultDisclosure_not_inline:
  assumes "\<not> (length (Split s NL) \<le> 2 \<and> length s \<le> 400)"
  shows "resultDisclosure ind s \<noteq> ind @ [NL] @ s"
proof -
  have "length (resultDisclosure ind s) \<noteq> length (ind @ [NL] @ s)"
  proof (cases "snd (previewRemaining 400 s) = []")
    case True
    have "s = fst (previewRemaining 400 s) @ [NL]"
      using remaining_empty_only_trailing_newline [OF assms True] by simp
    then have "length s = length (fst (previewRemaining 400 s)) + 1"
      by (metis length_append_singleton Suc_eq_plus1)
    then show ?thesis by (simp add: resultDisclosure_split [OF assms] True)
  next
    case False
    then show ?thesis
      using length_preview_remaining [OF assms]
      by (simp add: resultDisclosure_split [OF assms] resultDetails_def split: if_splits)
  qed
  then show ?thesis by auto
qed

lemma inputDisclosure_not_inline:
  assumes "\<not> (length (Split s NL) \<le> 2 \<and> length s \<le> 300)"
  shows "inputDisclosure s \<noteq> '' with '' @ s"
proof -
  have "length (inputDisclosure s) \<noteq> length ('' with '' @ s)"
  proof (cases "snd (previewRemaining 300 s) = []")
    case True
    have "s = fst (previewRemaining 300 s) @ [NL]"
      using remaining_empty_only_trailing_newline [OF assms True] by simp
    then have "length s = length (fst (previewRemaining 300 s)) + 1"
      by (metis length_append_singleton Suc_eq_plus1)
    then show ?thesis by (simp add: inputDisclosure_split [OF assms] True)
  next
    case False
    then show ?thesis
      using length_preview_remaining [OF assms]
      by (simp add: inputDisclosure_split [OF assms] inputDetails_def split: if_splits)
  qed
  then show ?thesis by auto
qed

text \<open>
  Claim C1, as the code has it. A candidate string is emitted whole, with no collapsible
  block, exactly when it has at most 2 lines and at most 300 (tool input) or 400 (tool
  result) bytes. Any other string is cut into a preview and a remainder: the first two lines and the
  other lines when there are more than two lines, else the first 300 or 400 bytes followed
  by \<^verbatim>\<open>...\<close> and the other bytes. A non-empty remainder follows the preview in a
  collapsible block; an empty remainder is not wrapped, and only the preview is emitted.
  Preview, newline and remainder (or preview without the ellipsis, and remainder) give the
  string back; the remainder is empty only for a string of exactly three lines whose third
  line is empty, which is the preview and a newline.
\<close>

theorem disclosure_preserves_content:
  "(length (Split s NL) \<le> 2 \<and> length s \<le> 300 \<longleftrightarrow> inputDisclosure s = '' with '' @ s)
   \<and> (length (Split s NL) \<le> 2 \<and> length s \<le> 400 \<longleftrightarrow> resultDisclosure ind s = ind @ [NL] @ s)
   \<and> (\<not> (length (Split s NL) \<le> 2 \<and> length s \<le> 300) \<longrightarrow>
        inputDisclosure s =
          (if snd (previewRemaining 300 s) \<noteq> []
           then inputDetails (fst (previewRemaining 300 s)) (snd (previewRemaining 300 s))
           else '' with '' @ fst (previewRemaining 300 s)))
   \<and> (\<not> (length (Split s NL) \<le> 2 \<and> length s \<le> 400) \<longrightarrow>
        resultDisclosure ind s =
          (if snd (previewRemaining 400 s) \<noteq> []
           then resultDetails ind (fst (previewRemaining 400 s)) (snd (previewRemaining 400 s))
           else ind @ [NL] @ fst (previewRemaining 400 s)))
   \<and> (2 < length (Split s NL) \<longrightarrow>
        fst (previewRemaining T s) = Join (take 2 (Split s NL)) [NL]
        \<and> snd (previewRemaining T s) = Join (drop 2 (Split s NL)) [NL]
        \<and> fst (previewRemaining T s) @ [NL] @ snd (previewRemaining T s) = s)
   \<and> (length (Split s NL) \<le> 2 \<and> T < length s \<longrightarrow>
        fst (previewRemaining T s) = take T s @ ''...''
        \<and> snd (previewRemaining T s) = drop T s
        \<and> take T s @ snd (previewRemaining T s) = s)
   \<and> (\<not> (length (Split s NL) \<le> 2 \<and> length s \<le> T) \<and> snd (previewRemaining T s) = [] \<longrightarrow>
        length (Split s NL) = 3 \<and> s = fst (previewRemaining T s) @ [NL])"
proof (intro conjI impI)
  show "length (Split s NL) \<le> 2 \<and> length s \<le> 300 \<longleftrightarrow> inputDisclosure s = '' with '' @ s"
    using inputDisclosure_inline [of s] inputDisclosure_not_inline [of s] by blast
next
  show "length (Split s NL) \<le> 2 \<and> length s \<le> 400 \<longleftrightarrow> resultDisclosure ind s = ind @ [NL] @ s"
    using resultDisclosure_inline [of s ind] resultDisclosure_not_inline [of s ind] by blast
next
  assume "\<not> (length (Split s NL) \<le> 2 \<and> length s \<le> 300)"
  then show "inputDisclosure s =
          (if snd (previewRemaining 300 s) \<noteq> []
           then inputDetails (fst (previewRemaining 300 s)) (snd (previewRemaining 300 s))
           else '' with '' @ fst (previewRemaining 300 s))"
    by (rule inputDisclosure_split)
next
  assume "\<not> (length (Split s NL) \<le> 2 \<and> length s \<le> 400)"
  then show "resultDisclosure ind s =
          (if snd (previewRemaining 400 s) \<noteq> []
           then resultDetails ind (fst (previewRemaining 400 s)) (snd (previewRemaining 400 s))
           else ind @ [NL] @ fst (previewRemaining 400 s))"
    by (rule resultDisclosure_split)
next
  assume a: "2 < length (Split s NL)"
  show "fst (previewRemaining T s) = Join (take 2 (Split s NL)) [NL]"
    by (simp add: previewRemaining_lines(1) [OF a])
  show "snd (previewRemaining T s) = Join (drop 2 (Split s NL)) [NL]"
    by (simp add: previewRemaining_lines(1) [OF a])
  show "fst (previewRemaining T s) @ [NL] @ snd (previewRemaining T s) = s"
    by (rule previewRemaining_lines(2) [OF a])
next
  assume a: "length (Split s NL) \<le> 2 \<and> T < length s"
  then have b: "\<not> 2 < length (Split s NL)" and c: "T < length s" by simp_all
  show "fst (previewRemaining T s) = take T s @ ''...''"
    by (simp add: previewRemaining_long(1) [OF b c])
  show "snd (previewRemaining T s) = drop T s"
    by (simp add: previewRemaining_long(1) [OF b c])
  show "take T s @ snd (previewRemaining T s) = s"
    by (simp add: previewRemaining_long(1) [OF b c])
next
  assume a: "\<not> (length (Split s NL) \<le> 2 \<and> length s \<le> T) \<and> snd (previewRemaining T s) = []"
  then show "length (Split s NL) = 3"
    using remaining_empty_only_trailing_newline [of s T] by blast
  from a show "s = fst (previewRemaining T s) @ [NL]"
    using remaining_empty_only_trailing_newline [of s T] by blast
qed

text \<open>The theorem at a short string, a string of three lines, a line of 301 bytes and a
  string that ends with its second newline.\<close>

theorem disclosure_preserves_content_witness:
  "resultDisclosure ''I'' ''ok'' = ''I\<newline>ok''
   \<and> resultDisclosure ''I'' ''a\<newline>b\<newline>c'' = resultDetails ''I'' ''a\<newline>b'' ''c''
   \<and> ''a\<newline>b'' @ [NL] @ ''c'' = ''a\<newline>b\<newline>c''
   \<and> inputDisclosure (replicate 301 CHR ''x'')
       = inputDetails (replicate 300 CHR ''x'' @ ''...'') ''x''
   \<and> replicate 300 CHR ''x'' @ ''x'' = replicate 301 CHR ''x''
   \<and> resultDisclosure ''I'' ''a\<newline>b\<newline>'' = ''I\<newline>a\<newline>b''"
proof -
  have x: "Split (replicate 301 CHR ''x'') NL = [replicate 301 CHR ''x'']"
    by (rule Split_no_sep) simp
  have r: "replicate 301 CHR ''x'' = replicate 300 CHR ''x'' @ ''x''"
    by (simp add: replicate_append_same flip: replicate_Suc)
  have p3: "previewRemaining 300 (replicate 301 CHR ''x'') = (replicate 300 CHR ''x'' @ ''...'', ''x'')"
    by (simp add: previewRemaining_def x)
  show ?thesis
    using disclosure_preserves_content [of "''ok''" "''I''" 400]
      disclosure_preserves_content [of "''a\<newline>b\<newline>c''" "''I''" 400]
      disclosure_preserves_content [of "replicate 301 CHR ''x''" "''I''" 300]
      disclosure_preserves_content [of "''a\<newline>b\<newline>''" "''I''" 400]
    by (simp add: x p3 previewRemaining_def)
qed

text \<open>C1 as stated fails where a string ends with its second newline: it has three lines,
  and yet no collapsible block is emitted, and the last newline is not emitted at all.\<close>

theorem disclosure_trailing_newline_counterexample:
  "2 < length (Split ''a\<newline>b\<newline>'' NL)
   \<and> resultDisclosure toolResultIndicator ''a\<newline>b\<newline>''
       = toolResultIndicator @ ''\<newline>a\<newline>b''
   \<and> resultDisclosure toolResultIndicator ''a\<newline>b\<newline>''
       \<noteq> resultDetails toolResultIndicator
            (fst (previewRemaining 400 ''a\<newline>b\<newline>''))
            (snd (previewRemaining 400 ''a\<newline>b\<newline>''))"
  by (simp add: resultDisclosure_def needsDisclosure_def previewRemaining_def resultDetails_def)



section \<open>One line at a time\<close>

lemma parseLine_classify:
  "parseLine lib w t line =
     (classify lib (staticLineNum w) t line,
      if TrimSpace line = [] then w else w\<lparr>staticLineNum := staticLineNum w + 1\<rparr>)"
  by (simp add: parseLine_def classify_def initialWorld_def Let_def split: option.splits prod.splits)

lemma classify_blank: "TrimSpace line = [] \<Longrightarrow> classify lib n t line = None"
  by (simp add: classify_def parseLine_def)

lemma classify_nonblank:
  "TrimSpace line \<noteq> [] \<Longrightarrow>
     \<exists>e. classify lib n t line = Some e \<and> LineNumber e = n + 1
        \<and> Timestamp e = formatRelativeTime t \<and> RawLine e = TrimSpace line"
  by (simp add: classify_def parseLine_def initialWorld_def Let_def split: option.splits prod.splits)

lemma classify_plain:
  "TrimSpace line \<noteq> [] \<Longrightarrow>
   \<not> HasPrefix (TrimSpace line) ''{'' \<or> Unmarshal lib (TrimSpace line) = None \<Longrightarrow>
   classify lib n t line =
     Some \<lparr>LineNumber = n + 1, Speaker = ''SYSTEM'', EntryContent = TrimSpace line,
           Timestamp = formatRelativeTime t, IsJSON = False, RawLine = TrimSpace line\<rparr>"
  by (auto simp: classify_def parseLine_def initialWorld_def Let_def split: option.splits prod.splits)

lemma streamLines_Cons:
  "streamLines lib sink ((line, t) # rest) w =
     (case classify lib (staticLineNum w) t line of
        None \<Rightarrow> streamLines lib sink rest w
      | Some e \<Rightarrow>
          streamLines lib sink rest
            (createBuildkiteAnnotation lib sink
               (w\<lparr>staticLineNum := staticLineNum w + 1, entries := entries w @ [e],
                  stdout := stdout w @ printSingleEntry lib e\<rparr>)
               line (LineNumber e) (Timestamp e)))"
proof (cases "TrimSpace line = []")
  case True
  then show ?thesis by (simp add: parseLine_classify classify_blank)
next
  case False
  then obtain e where "classify lib (staticLineNum w) t line = Some e"
    using classify_nonblank by blast
  with False show ?thesis by (simp add: parseLine_classify Let_def)
qed

lemma createBuildkiteAnnotation_frame:
  "staticLineNum (createBuildkiteAnnotation lib sink w line n ts) = staticLineNum w"
  "stdout (createBuildkiteAnnotation lib sink w line n ts) = stdout w"
  "entries (createBuildkiteAnnotation lib sink w line n ts) = entries w"
  "outputFile (createBuildkiteAnnotation lib sink w line n ts) = outputFile w"
  by (simp_all add: createBuildkiteAnnotation_def Let_def split: option.splits)

section \<open>Lines that are not decoded\<close>

lemma annotationCommand_plain:
  assumes "TrimSpace line \<noteq> []"
    and "\<not> HasPrefix (TrimSpace line) ''{''"
  shows "annotationCommand lib line n ts =
     Some \<lparr>annStyle = ''warning'',
           annContext = ''chat-message-'' @ fmt_d 0 (sint n),
           annStdin = ''**Message '' @ fmt_d 0 (sint n) @ ''** - `'' @ ts @ ''`\<newline>\<newline>''
             @ gear @ '' **SYSTEM**:\<newline>\<newline>'' @ TrimSpace line
             @ ''\<newline>\<newline><details>\<newline><summary>Show JSON</summary>\<newline>\<newline>```json\<newline>''
             @ TrimSpace line @ ''\<newline>```\<newline>\<newline></details>''\<rparr>"
  using assms by (simp add: annotationCommand_def Let_def)

lemma printSingleEntry_nonempty:
  "EntryContent e \<noteq> [] \<Longrightarrow> printSingleEntry lib e \<noteq> []"
  using Split_not_Nil [of "EntryContent e" NL]
  by (auto simp: printSingleEntry_def Let_def split: prod.splits list.splits)

text \<open>
  Claim C10. A line whose trimmed text is not empty and does not begin with \<^verbatim>\<open>{\<close> becomes
  the entry with speaker SYSTEM, \<^verbatim>\<open>IsJSON\<close> false and the trimmed text as content, and the
  annotation emitter builds the SYSTEM report with the same content; neither result
  mentions the JSON functions, and replacing them by any others changes nothing.
\<close>

theorem plain_line_never_parsed:
  assumes "TrimSpace line \<noteq> []"
    and "\<not> HasPrefix (TrimSpace line) ''{''"
  shows "parseLine lib w t line =
          (Some \<lparr>LineNumber = staticLineNum w + 1, Speaker = ''SYSTEM'',
                 EntryContent = TrimSpace line, Timestamp = formatRelativeTime t,
                 IsJSON = False, RawLine = TrimSpace line\<rparr>,
           w\<lparr>staticLineNum := staticLineNum w + 1\<rparr>)
       \<and> annotationCommand lib line n ts =
          Some \<lparr>annStyle = ''warning'',
                annContext = ''chat-message-'' @ fmt_d 0 (sint n),
                annStdin = ''**Message '' @ fmt_d 0 (sint n) @ ''** - `'' @ ts @ ''`\<newline>\<newline>''
                  @ gear @ '' **SYSTEM**:\<newline>\<newline>'' @ TrimSpace line
                  @ ''\<newline>\<newline><details>\<newline><summary>Show JSON</summary>\<newline>\<newline>```json\<newline>''
                  @ TrimSpace line @ ''\<newline>```\<newline>\<newline></details>''\<rparr>
       \<and> parseLine lib w t line
          = parseLine (lib\<lparr>Unmarshal := u, UnmarshalAny := ua, Valid := v, Marshal := m,
                           MarshalIndent := mi\<rparr>) w t line
       \<and> annotationCommand lib line n ts
          = annotationCommand (lib\<lparr>Unmarshal := u, UnmarshalAny := ua, Valid := v, Marshal := m,
                           MarshalIndent := mi\<rparr>) line n ts"
proof -
  have p: "\<And>l :: 'a golib. parseLine l w t line =
          (Some \<lparr>LineNumber = staticLineNum w + 1, Speaker = ''SYSTEM'',
                 EntryContent = TrimSpace line, Timestamp = formatRelativeTime t,
                 IsJSON = False, RawLine = TrimSpace line\<rparr>,
           w\<lparr>staticLineNum := staticLineNum w + 1\<rparr>)"
    using assms by (simp add: parseLine_classify classify_plain)
  show ?thesis
    by (simp only: p annotationCommand_plain [OF assms])
qed

text \<open>
  The theorem at the line \<^verbatim>\<open>[1, 2]\<close>, which is valid JSON.
\<close>

theorem plain_line_never_parsed_witness:
  "TrimSpace arrayLine = arrayLine \<and> arrayLine \<noteq> [] \<and> \<not> HasPrefix arrayLine ''{''
   \<and> Valid exampleLib arrayLine
   \<and> fst (parseLine exampleLib initialWorld 7 arrayLine) =
        Some \<lparr>LineNumber = 1, Speaker = ''SYSTEM'', EntryContent = arrayLine,
               Timestamp = ''00:07'', IsJSON = False, RawLine = arrayLine\<rparr>
   \<and> map_option annStyle (annotationCommand exampleLib arrayLine 1 ''00:07'') = Some ''warning''"
proof -
  have t: "TrimSpace arrayLine = arrayLine"
    by (simp add: TrimSpace_def arrayLine_def asciiSpace_def space2_def space3_def)
  have n: "arrayLine \<noteq> []" and h: "\<not> HasPrefix arrayLine ''{''"
    by (simp_all add: arrayLine_def HasPrefix_def)
  have f: "formatRelativeTime 7 = ''00:07''"
    by (simp add: formatRelativeTime_def quo_def rem_def fmt_d_def)
  from n h have a: "TrimSpace arrayLine \<noteq> []" "\<not> HasPrefix (TrimSpace arrayLine) ''{''"
    by (simp_all add: t)
  show ?thesis
    using plain_line_never_parsed [OF a, of exampleLib initialWorld 7 1 "''00:07''"]
    by (simp add: t n h f initialWorld_def exampleLib_def)
qed

text \<open>
  Claim C7. The line that the classifier works on is the text left by \<^verbatim>\<open>strings.TrimSpace\<close>,
  which it also keeps as \<^verbatim>\<open>RawLine\<close>. When this text is not empty and \<^verbatim>\<open>json.Unmarshal\<close>
  rejects it (as it rejects every text that is not valid JSON), the entry has speaker
  SYSTEM, \<^verbatim>\<open>IsJSON\<close> false and this text as content. The entry is printed, and the loop
  goes on with the next line.
\<close>

theorem undecodable_line_shown_as_system:
  assumes "TrimSpace line \<noteq> []"
    and "Unmarshal lib (TrimSpace line) = None"
  shows "parseLine lib w t line =
          (Some \<lparr>LineNumber = staticLineNum w + 1, Speaker = ''SYSTEM'',
                 EntryContent = TrimSpace line, Timestamp = formatRelativeTime t,
                 IsJSON = False, RawLine = TrimSpace line\<rparr>,
           w\<lparr>staticLineNum := staticLineNum w + 1\<rparr>)
       \<and> printSingleEntry lib
            \<lparr>LineNumber = staticLineNum w + 1, Speaker = ''SYSTEM'',
              EntryContent = TrimSpace line, Timestamp = formatRelativeTime t,
              IsJSON = False, RawLine = TrimSpace line\<rparr> \<noteq> []
       \<and> streamLines lib sink ((line, t) # rest) w =
           streamLines lib sink rest
             (createBuildkiteAnnotation lib sink
                (w\<lparr>staticLineNum := staticLineNum w + 1,
                   entries := entries w @
                     [\<lparr>LineNumber = staticLineNum w + 1, Speaker = ''SYSTEM'',
                       EntryContent = TrimSpace line, Timestamp = formatRelativeTime t,
                       IsJSON = False, RawLine = TrimSpace line\<rparr>],
                   stdout := stdout w @ printSingleEntry lib
                     \<lparr>LineNumber = staticLineNum w + 1, Speaker = ''SYSTEM'',
                       EntryContent = TrimSpace line, Timestamp = formatRelativeTime t,
                       IsJSON = False, RawLine = TrimSpace line\<rparr>\<rparr>)
                line (staticLineNum w + 1) (formatRelativeTime t))"
proof -
  let ?e = "\<lparr>LineNumber = staticLineNum w + 1, Speaker = ''SYSTEM'',
              EntryContent = TrimSpace line, Timestamp = formatRelativeTime t,
              IsJSON = False, RawLine = TrimSpace line\<rparr>"
  have c: "classify lib (staticLineNum w) t line = Some ?e"
    using assms by (simp add: classify_plain)
  have p: "printSingleEntry lib ?e \<noteq> []"
    using assms(1) by (intro printSingleEntry_nonempty) simp
  show ?thesis
    using assms(1) p by (simp add: parseLine_classify c streamLines_Cons del: streamLines.simps)
qed

text \<open>
  The theorem at the lines \<^verbatim>\<open>not json at all\<close> and \<^verbatim>\<open>{oops\<close>, and at a line that starts
  with two spaces.
\<close>

theorem undecodable_line_shown_as_system_witness:
  "TrimSpace ''not json at all'' \<noteq> []
   \<and> Unmarshal exampleLib (TrimSpace ''not json at all'') = None
   \<and> fst (parseLine exampleLib initialWorld 0 ''not json at all'') =
       Some \<lparr>LineNumber = 1, Speaker = ''SYSTEM'', EntryContent = ''not json at all'',
              Timestamp = ''00:00'', IsJSON = False, RawLine = ''not json at all''\<rparr>
   \<and> HasPrefix (TrimSpace ''{oops'') ''{''
   \<and> Unmarshal exampleLib (TrimSpace ''{oops'') = None
   \<and> fst (parseLine exampleLib initialWorld 0 ''{oops'') =
       Some \<lparr>LineNumber = 1, Speaker = ''SYSTEM'', EntryContent = ''{oops'',
              Timestamp = ''00:00'', IsJSON = False, RawLine = ''{oops''\<rparr>
   \<and> TrimSpace ''  oops'' = ''oops''
   \<and> Unmarshal exampleLib (TrimSpace ''  oops'') = None
   \<and> fst (parseLine exampleLib initialWorld 0 ''  oops'') =
       Some \<lparr>LineNumber = 1, Speaker = ''SYSTEM'', EntryContent = ''oops'',
              Timestamp = ''00:00'', IsJSON = False, RawLine = ''oops''\<rparr>"
proof -
  have t: "TrimSpace ''not json at all'' = ''not json at all''" "TrimSpace ''{oops'' = ''{oops''"
    "TrimSpace ''  oops'' = ''oops''"
    by (simp_all add: TrimSpace_def asciiSpace_def space2_def space3_def)
  have u: "Unmarshal exampleLib (TrimSpace ''not json at all'') = None"
    "Unmarshal exampleLib (TrimSpace ''{oops'') = None"
    "Unmarshal exampleLib (TrimSpace ''  oops'') = None"
    unfolding t by (simp_all add: exampleLib_def emptyAssistantLine_def resultLine_def sentinelLine_def)
  have n: "TrimSpace ''not json at all'' \<noteq> []" "TrimSpace ''{oops'' \<noteq> []"
    "TrimSpace ''  oops'' \<noteq> []"
    unfolding t by simp_all
  have f: "formatRelativeTime 0 = ''00:00''"
    by (simp add: formatRelativeTime_def quo_def rem_def fmt_d_def)
  show ?thesis
    using undecodable_line_shown_as_system [OF n(1) u(1), of initialWorld 0 sinkOK "[]"]
      undecodable_line_shown_as_system [OF n(2) u(2), of initialWorld 0 sinkOK "[]"]
      undecodable_line_shown_as_system [OF n(3) u(3), of initialWorld 0 sinkOK "[]"]
    by (simp add: t f initialWorld_def u [unfolded t] HasPrefix_def)
qed

section \<open>The capture file\<close>

lemma classify_Some_nonblank: "classify lib n t line = Some e \<Longrightarrow> TrimSpace line \<noteq> []"
  using classify_blank [of line lib n t] by auto

lemma outputFile_update_last:
  "w\<lparr>outputFile := f, staticLineNum := n, entries := es, stdout := out\<rparr>
     = (w\<lparr>staticLineNum := n, entries := es, stdout := out\<rparr>)\<lparr>outputFile := f\<rparr>"
  by (cases w) simp

lemma streamLinesWithFile_Cons:
  "streamLinesWithFile lib sink ((line, t) # rest) w =
     (case classify lib (staticLineNum w) t line of
        None \<Rightarrow> streamLinesWithFile lib sink rest (w\<lparr>outputFile := outputFile w @ [line @ [NL]]\<rparr>)
      | Some e \<Rightarrow>
          streamLinesWithFile lib sink rest
            (createBuildkiteAnnotation lib sink
               (w\<lparr>outputFile := outputFile w @ [line @ [NL]],
                  staticLineNum := staticLineNum w + 1, entries := entries w @ [e],
                  stdout := stdout w @ printSingleEntry lib e\<rparr>)
               line (LineNumber e) (Timestamp e)))"
proof (cases "TrimSpace line = []")
  case True
  then show ?thesis by (simp add: parseLine_classify classify_blank)
next
  case False
  then obtain e where "classify lib (staticLineNum w) t line = Some e"
    using classify_nonblank by blast
  with False show ?thesis by (simp add: parseLine_classify Let_def)
qed

lemma createBuildkiteAnnotation_outputFile:
  "createBuildkiteAnnotation lib sink (w\<lparr>outputFile := f\<rparr>) line n ts
     = (createBuildkiteAnnotation lib sink w line n ts)\<lparr>outputFile := f\<rparr>"
  by (simp add: createBuildkiteAnnotation_def Let_def split: option.splits)

lemma streamLines_outputFile:
  "streamLines lib sink toks (w\<lparr>outputFile := f\<rparr>) = (streamLines lib sink toks w)\<lparr>outputFile := f\<rparr>"
proof (induction toks arbitrary: w)
  case Nil
  show ?case by simp
next
  case (Cons tok toks)
  obtain line t where tok: "tok = (line, t)" by (cases tok)
  show ?case
  proof (cases "classify lib (staticLineNum w) t line")
    case None
    then show ?thesis by (simp add: tok streamLines_Cons Cons.IH del: streamLines.simps)
  next
    case (Some e)
    let ?w1 = "w\<lparr>staticLineNum := staticLineNum w + 1, entries := entries w @ [e],
                 stdout := stdout w @ printSingleEntry lib e\<rparr>"
    have "streamLines lib sink (tok # toks) (w\<lparr>outputFile := f\<rparr>)
          = streamLines lib sink toks
              (createBuildkiteAnnotation lib sink (?w1\<lparr>outputFile := f\<rparr>) line
                 (LineNumber e) (Timestamp e))"
      by (simp add: tok streamLines_Cons Some outputFile_update_last del: streamLines.simps)
    also have "\<dots> = (streamLines lib sink toks
              (createBuildkiteAnnotation lib sink ?w1 line (LineNumber e) (Timestamp e)))
              \<lparr>outputFile := f\<rparr>"
      by (simp only: createBuildkiteAnnotation_outputFile Cons.IH)
    also have "\<dots> = (streamLines lib sink (tok # toks) w)\<lparr>outputFile := f\<rparr>"
      by (simp add: tok streamLines_Cons Some del: streamLines.simps)
    finally show ?thesis .
  qed
qed

lemma streamLinesWithFile_eq:
  "streamLinesWithFile lib sink toks w =
     (streamLines lib sink toks w)
       \<lparr>outputFile := outputFile w @ map (\<lambda>(line, t). line @ [NL]) toks\<rparr>"
proof (induction toks arbitrary: w)
  case Nil
  show ?case by simp
next
  case (Cons tok toks)
  obtain line t where tok: "tok = (line, t)" by (cases tok)
  show ?case
  proof (cases "classify lib (staticLineNum w) t line")
    case None
    then show ?thesis
      by (simp add: tok streamLines_Cons streamLinesWithFile_Cons Cons.IH streamLines_outputFile
          del: streamLines.simps streamLinesWithFile.simps)
  next
    case (Some e)
    let ?w1 = "w\<lparr>staticLineNum := staticLineNum w + 1, entries := entries w @ [e],
                 stdout := stdout w @ printSingleEntry lib e\<rparr>"
    let ?f = "outputFile w @ [line @ [NL]]"
    let ?w2 = "createBuildkiteAnnotation lib sink ?w1 line (LineNumber e) (Timestamp e)"
    have o: "outputFile ?w2 = outputFile w"
      by (simp add: createBuildkiteAnnotation_frame)
    have "streamLinesWithFile lib sink (tok # toks) w
          = streamLinesWithFile lib sink toks
              (createBuildkiteAnnotation lib sink (?w1\<lparr>outputFile := ?f\<rparr>) line
                 (LineNumber e) (Timestamp e))"
      by (simp add: tok streamLinesWithFile_Cons Some outputFile_update_last
          del: streamLinesWithFile.simps)
    also have "\<dots> = streamLinesWithFile lib sink toks (?w2\<lparr>outputFile := ?f\<rparr>)"
      by (simp only: createBuildkiteAnnotation_outputFile)
    also have "\<dots> = (streamLines lib sink toks (?w2\<lparr>outputFile := ?f\<rparr>))
          \<lparr>outputFile := outputFile (?w2\<lparr>outputFile := ?f\<rparr>)
             @ map (\<lambda>(line, t). line @ [NL]) toks\<rparr>"
      by (rule Cons.IH)
    also have "\<dots> = (streamLines lib sink toks ?w2)
          \<lparr>outputFile := outputFile w @ map (\<lambda>(line, t). line @ [NL]) (tok # toks)\<rparr>"
      by (simp add: streamLines_outputFile tok)
    also have "\<dots> = (streamLines lib sink (tok # toks) w)
          \<lparr>outputFile := outputFile w @ map (\<lambda>(line, t). line @ [NL]) (tok # toks)\<rparr>"
      by (simp add: tok streamLines_Cons Some del: streamLines.simps)
    finally show ?thesis .
  qed
qed

text \<open>
  Claim C8. When the capture file has been created, the run with capture ends in the state
  of the run without capture, except that the file holds every line the scanner
  delivered, each followed by a newline, once and in order; the fatal error, if any, is the
  same.
\<close>

theorem capture_file_is_tee:
  "parseAndStreamOutputWithFile lib sink None outputFilename sc w =
     ((fst (parseAndStreamOutput lib sink sc w))
        \<lparr>outputFile := map (\<lambda>(line, t). line @ [NL]) (tokens sc)\<rparr>,
      snd (parseAndStreamOutput lib sink sc w))"
  by (simp add: parseAndStreamOutputWithFile_def parseAndStreamOutput_def streamLinesWithFile_eq
      streamLines_outputFile)

text \<open>The theorem at two lines, the second of them blank.\<close>

theorem capture_file_is_tee_witness:
  "outputFile (fst (parseAndStreamOutputWithFile exampleLib sinkOK None ''out.json''
      \<lparr>tokens = [(''not json'', 0), (''   '', 1)], scanErr = None\<rparr> initialWorld))
     = [''not json\<newline>'', ''   \<newline>'']
   \<and> stdout (fst (parseAndStreamOutputWithFile exampleLib sinkOK None ''out.json''
      \<lparr>tokens = [(''not json'', 0), (''   '', 1)], scanErr = None\<rparr> initialWorld))
     = stdout (fst (parseAndStreamOutput exampleLib sinkOK
      \<lparr>tokens = [(''not json'', 0), (''   '', 1)], scanErr = None\<rparr> initialWorld))
   \<and> annotateCalls (fst (parseAndStreamOutputWithFile exampleLib sinkOK None ''out.json''
      \<lparr>tokens = [(''not json'', 0), (''   '', 1)], scanErr = None\<rparr> initialWorld))
     = annotateCalls (fst (parseAndStreamOutput exampleLib sinkOK
      \<lparr>tokens = [(''not json'', 0), (''   '', 1)], scanErr = None\<rparr> initialWorld))
   \<and> entries (fst (parseAndStreamOutputWithFile exampleLib sinkOK None ''out.json''
      \<lparr>tokens = [(''not json'', 0), (''   '', 1)], scanErr = None\<rparr> initialWorld))
     = entries (fst (parseAndStreamOutput exampleLib sinkOK
      \<lparr>tokens = [(''not json'', 0), (''   '', 1)], scanErr = None\<rparr> initialWorld))"
  using capture_file_is_tee [of exampleLib sinkOK "''out.json''"
      "\<lparr>tokens = [(''not json'', 0), (''   '', 1)], scanErr = None\<rparr>" initialWorld]
  by simp

section \<open>Line numbers\<close>

lemma upt_shift: "map (\<lambda>i. f (Suc i)) [1..<Suc k] = map f [2..<Suc (Suc k)]"
proof -
  have "map f (map Suc [1..<Suc k]) = map f [Suc 1..<Suc (Suc k)]"
    by (simp only: map_Suc_upt)
  then show ?thesis by (simp add: comp_def numeral_2_eq_2)
qed

lemma lineNumbers_from:
  "map LineNumber (entries (streamLines lib sink toks w)) =
     map LineNumber (entries w)
     @ map (\<lambda>i. staticLineNum w + word_of_nat i) [1..<Suc (nonBlank toks)]"
proof (induction toks arbitrary: w)
  case Nil
  show ?case by (simp add: nonBlank_def)
next
  case (Cons tok toks)
  obtain line t where tok: "tok = (line, t)" by (cases tok)
  show ?case
  proof (cases "TrimSpace line = []")
    case True
    have "streamLines lib sink (tok # toks) w = streamLines lib sink toks w"
      using True by (simp add: tok streamLines_Cons classify_blank del: streamLines.simps)
    moreover have "nonBlank (tok # toks) = nonBlank toks"
      using True by (simp add: tok nonBlank_def)
    ultimately show ?thesis using Cons.IH [of w] by simp
  next
    case False
    then obtain e where e: "classify lib (staticLineNum w) t line = Some e"
      and n: "LineNumber e = staticLineNum w + 1"
      using classify_nonblank by blast
    let ?w = "createBuildkiteAnnotation lib sink
               (w\<lparr>staticLineNum := staticLineNum w + 1, entries := entries w @ [e],
                  stdout := stdout w @ printSingleEntry lib e\<rparr>)
               line (LineNumber e) (Timestamp e)"
    have k: "nonBlank (tok # toks) = Suc (nonBlank toks)"
      using False by (simp add: tok nonBlank_def)
    have s: "[1..<Suc (Suc (nonBlank toks))] = 1 # [2..<Suc (Suc (nonBlank toks))]"
      by (simp add: upt_rec numeral_2_eq_2)
    have "map LineNumber (entries (streamLines lib sink (tok # toks) w))
          = map LineNumber (entries (streamLines lib sink toks ?w))"
      by (simp add: tok streamLines_Cons e del: streamLines.simps)
    also have "\<dots> = map LineNumber (entries ?w)
          @ map (\<lambda>i. staticLineNum ?w + word_of_nat i) [1..<Suc (nonBlank toks)]"
      by (rule Cons.IH)
    also have "\<dots> = map LineNumber (entries w) @ [staticLineNum w + word_of_nat 1]
          @ map (\<lambda>i. staticLineNum w + word_of_nat (Suc i)) [1..<Suc (nonBlank toks)]"
      by (simp add: createBuildkiteAnnotation_frame n add.assoc del: upt_Suc)
    also have "\<dots> = map LineNumber (entries w) @ [staticLineNum w + word_of_nat 1]
          @ map (\<lambda>i. staticLineNum w + word_of_nat i) [2..<Suc (Suc (nonBlank toks))]"
      by (simp only: upt_shift [of "\<lambda>i. staticLineNum w + word_of_nat i"])
    also have "\<dots> = map LineNumber (entries w)
          @ map (\<lambda>i. staticLineNum w + word_of_nat i) [1..<Suc (nonBlank (tok # toks))]"
      unfolding k s by (simp del: upt_Suc)
    finally show ?thesis .
  qed
qed

lemma sint_small: "n < 2 ^ 63 \<Longrightarrow> sint (word_of_nat n :: 64 word) = int n"
proof -
  assume a: "n < 2 ^ 63"
  have "int n < 2 ^ 63" using a by (metis of_nat_less_iff of_nat_numeral of_nat_power)
  then have "signed_take_bit 63 (int n) = int n"
    by (intro signed_take_bit_int_eq_self) simp_all
  then show ?thesis
    using signed_of_nat [of n, where 'a = int and 'b = 64] by simp
qed

text \<open>
  Claim C6. The line numbers of the entries of a run are 1, 2, 3, ... in order, one for each
  input line that is not blank after trimming, whether or not the line is JSON; as the
  counter is a 64-bit \<^verbatim>\<open>int\<close>, the numbers read as signed integers are these as long as
  there are fewer than \<open>2 ^ 63\<close> such lines. The loop with the capture file makes the same
  entries. A line that is blank after trimming gives no entry and leaves the state, and so
  the counter, as it was.
\<close>

theorem lineNumbers_consecutive:
  "map LineNumber (entries (streamLines lib sink toks initialWorld))
     = map word_of_nat [1..<Suc (nonBlank toks)]
   \<and> (nonBlank toks < 2 ^ 63 \<longrightarrow>
        map (\<lambda>e. sint (LineNumber e)) (entries (streamLines lib sink toks initialWorld))
          = map int [1..<Suc (nonBlank toks)])
   \<and> entries (streamLinesWithFile lib sink toks initialWorld)
       = entries (streamLines lib sink toks initialWorld)
   \<and> (TrimSpace line = [] \<longrightarrow> parseLine lib w t line = (None, w))"
proof (intro conjI impI)
  show a: "map LineNumber (entries (streamLines lib sink toks initialWorld))
     = map word_of_nat [1..<Suc (nonBlank toks)]"
    using lineNumbers_from [of lib sink toks initialWorld] by (simp add: initialWorld_def)
  show "entries (streamLinesWithFile lib sink toks initialWorld)
       = entries (streamLines lib sink toks initialWorld)"
    by (simp add: streamLinesWithFile_eq)
  show "map (\<lambda>e. sint (LineNumber e)) (entries (streamLines lib sink toks initialWorld))
          = map int [1..<Suc (nonBlank toks)]" if b: "nonBlank toks < 2 ^ 63"
  proof -
    have "map (\<lambda>e. sint (LineNumber e)) (entries (streamLines lib sink toks initialWorld))
          = map sint (map LineNumber (entries (streamLines lib sink toks initialWorld)))"
      by (simp add: comp_def)
    also have "\<dots> = map (\<lambda>i. sint (word_of_nat i :: 64 word)) [1..<Suc (nonBlank toks)]"
      unfolding a by (simp add: comp_def)
    also have "\<dots> = map int [1..<Suc (nonBlank toks)]"
    proof (rule map_cong [OF refl])
      fix i assume "i \<in> set [1..<Suc (nonBlank toks)]"
      then have "i \<le> nonBlank toks" by auto
      with b have "i < 2 ^ 63" by simp
      then show "sint (word_of_nat i :: 64 word) = int i" by (rule sint_small)
    qed
    finally show ?thesis .
  qed
  show "parseLine lib w t line = (None, w)" if "TrimSpace line = []"
    using that by (simp add: parseLine_def)
qed

text \<open>
  The theorem at three lines, the second of them blank.
\<close>

theorem lineNumbers_consecutive_witness:
  "nonBlank [(''not json'', 0), (''   '', 1), (arrayLine, 2)] < 2 ^ 63
   \<and> map (\<lambda>e. sint (LineNumber e))
        (entries (streamLines exampleLib sinkOK [(''not json'', 0), (''   '', 1), (arrayLine, 2)]
           initialWorld)) = [1, 2]
   \<and> TrimSpace ''   '' = []
   \<and> parseLine exampleLib initialWorld 1 ''   '' = (None, initialWorld)"
proof -
  have k: "nonBlank [(''not json'', 0), (''   '', 1), (arrayLine, 2)] = 2"
    by (simp add: nonBlank_def TrimSpace_def arrayLine_def asciiSpace_def space2_def space3_def)
  have b: "TrimSpace ''   '' = []"
    by (simp add: TrimSpace_def asciiSpace_def)
  show ?thesis
    using lineNumbers_consecutive [of exampleLib sinkOK
        "[(''not json'', 0), (''   '', 1), (arrayLine, 2)]" "''   ''" initialWorld 1]
    unfolding k by (simp add: b upt_rec)
qed

section \<open>Failures of the annotation sink\<close>

lemma createBuildkiteAnnotation_cases:
  "createBuildkiteAnnotation lib sink w line n ts =
     (case annotationCommand lib line n ts of
        None \<Rightarrow> w
      | Some cmd \<Rightarrow>
          w\<lparr>annotateCalls := annotateCalls w @ [cmd],
            logOutput := logOutput w @ sinkWarnings sink (length (annotateCalls w)) [cmd]\<rparr>)"
  by (cases w) (simp add: createBuildkiteAnnotation_def Let_def split: option.splits)

lemma createBuildkiteAnnotation_sinkOK:
  "createBuildkiteAnnotation lib sinkOK w line n ts =
     (case annotationCommand lib line n ts of
        None \<Rightarrow> w
      | Some cmd \<Rightarrow> w\<lparr>annotateCalls := annotateCalls w @ [cmd]\<rparr>)"
  by (simp add: createBuildkiteAnnotation_def sinkOK_def Let_def split: option.splits)

lemma streamLines_sinkOK_logOutput:
  "streamLines lib sinkOK toks (w\<lparr>logOutput := l\<rparr>)
     = (streamLines lib sinkOK toks w)\<lparr>logOutput := l\<rparr>"
proof (induction toks arbitrary: w)
  case Nil
  show ?case by simp
next
  case (Cons tok toks)
  obtain line t where tok: "tok = (line, t)" by (cases tok)
  show ?case
  proof (cases "classify lib (staticLineNum w) t line")
    case None
    then show ?thesis by (simp add: tok streamLines_Cons Cons.IH del: streamLines.simps)
  next
    case (Some e)
    let ?w1 = "w\<lparr>staticLineNum := staticLineNum w + 1, entries := entries w @ [e],
                 stdout := stdout w @ printSingleEntry lib e\<rparr>"
    have c: "createBuildkiteAnnotation lib sinkOK (?w1\<lparr>logOutput := l\<rparr>) line (LineNumber e) (Timestamp e)
          = (createBuildkiteAnnotation lib sinkOK ?w1 line (LineNumber e) (Timestamp e))\<lparr>logOutput := l\<rparr>"
      by (simp add: createBuildkiteAnnotation_sinkOK split: option.splits)
    have s: "(w\<lparr>logOutput := l\<rparr>)\<lparr>staticLineNum := staticLineNum w + 1, entries := entries w @ [e],
                 stdout := stdout w @ printSingleEntry lib e\<rparr> = ?w1\<lparr>logOutput := l\<rparr>"
      by (cases w) simp
    have "streamLines lib sinkOK (tok # toks) (w\<lparr>logOutput := l\<rparr>)
          = streamLines lib sinkOK toks
              (createBuildkiteAnnotation lib sinkOK (?w1\<lparr>logOutput := l\<rparr>) line
                 (LineNumber e) (Timestamp e))"
      by (simp add: tok streamLines_Cons Some s del: streamLines.simps)
    also have "\<dots> = (streamLines lib sinkOK toks
              (createBuildkiteAnnotation lib sinkOK ?w1 line (LineNumber e) (Timestamp e)))
              \<lparr>logOutput := l\<rparr>"
      by (simp only: c Cons.IH)
    also have "\<dots> = (streamLines lib sinkOK (tok # toks) w)\<lparr>logOutput := l\<rparr>"
      by (simp add: tok streamLines_Cons Some del: streamLines.simps)
    finally show ?thesis .
  qed
qed

lemma annotateCalls_extend:
  "\<exists>new. annotateCalls (streamLines lib sink toks w) = annotateCalls w @ new"
proof (induction toks arbitrary: w)
  case Nil
  show ?case by simp
next
  case (Cons tok toks)
  obtain line t where tok: "tok = (line, t)" by (cases tok)
  show ?case
  proof (cases "classify lib (staticLineNum w) t line")
    case None
    then show ?thesis using Cons.IH [of w] by (simp add: tok streamLines_Cons del: streamLines.simps)
  next
    case (Some e)
    let ?w2 = "createBuildkiteAnnotation lib sink
                 (w\<lparr>staticLineNum := staticLineNum w + 1, entries := entries w @ [e],
                    stdout := stdout w @ printSingleEntry lib e\<rparr>)
                 line (LineNumber e) (Timestamp e)"
    obtain new where n: "annotateCalls (streamLines lib sink toks ?w2) = annotateCalls ?w2 @ new"
      using Cons.IH [of ?w2] by blast
    have "\<exists>one. annotateCalls ?w2 = annotateCalls w @ one"
      by (simp add: createBuildkiteAnnotation_cases split: option.splits)
    then obtain one where "annotateCalls ?w2 = annotateCalls w @ one" by blast
    with n have "annotateCalls (streamLines lib sink (tok # toks) w) = annotateCalls w @ (one @ new)"
      by (simp add: tok streamLines_Cons Some del: streamLines.simps)
    then show ?thesis by blast
  qed
qed

lemma drop_calls:
  "annotateCalls (streamLines lib sink toks w)
     = annotateCalls w @ drop (length (annotateCalls w)) (annotateCalls (streamLines lib sink toks w))"
proof -
  obtain new where "annotateCalls (streamLines lib sink toks w) = annotateCalls w @ new"
    using annotateCalls_extend by blast
  then show ?thesis by simp
qed

lemma streamLines_any_sink:
  "streamLines lib sink toks w =
     (streamLines lib sinkOK toks w)
       \<lparr>logOutput := logOutput w
          @ sinkWarnings sink (length (annotateCalls w))
              (drop (length (annotateCalls w)) (annotateCalls (streamLines lib sinkOK toks w)))\<rparr>"
proof (induction toks arbitrary: w)
  case Nil
  show ?case by simp
next
  case (Cons tok toks)
  obtain line t where tok: "tok = (line, t)" by (cases tok)
  show ?case
  proof (cases "classify lib (staticLineNum w) t line")
    case None
    then show ?thesis using Cons.IH [of w] by (simp add: tok streamLines_Cons del: streamLines.simps)
  next
    case (Some e)
    let ?w1 = "w\<lparr>staticLineNum := staticLineNum w + 1, entries := entries w @ [e],
                 stdout := stdout w @ printSingleEntry lib e\<rparr>"
    let ?n = "length (annotateCalls w)"
    have l: "streamLines lib sink (tok # toks) w
          = streamLines lib sink toks
              (createBuildkiteAnnotation lib sink ?w1 line (LineNumber e) (Timestamp e))"
      by (simp add: tok streamLines_Cons Some del: streamLines.simps)
    have r: "streamLines lib sinkOK (tok # toks) w
          = streamLines lib sinkOK toks
              (createBuildkiteAnnotation lib sinkOK ?w1 line (LineNumber e) (Timestamp e))"
      by (simp add: tok streamLines_Cons Some del: streamLines.simps)
    show ?thesis
    proof (cases "annotationCommand lib line (LineNumber e) (Timestamp e)")
      case None
      then show ?thesis
        unfolding l r using Cons.IH [of ?w1]
        by (simp add: createBuildkiteAnnotation_cases)
    next
      case (Some cmd)
      let ?wO = "?w1\<lparr>annotateCalls := annotateCalls w @ [cmd]\<rparr>"
      let ?l1 = "logOutput w @ sinkWarnings sink ?n [cmd]"
      let ?C = "annotateCalls (streamLines lib sinkOK toks ?wO)"
      have wS: "createBuildkiteAnnotation lib sink ?w1 line (LineNumber e) (Timestamp e)
                = ?wO\<lparr>logOutput := ?l1\<rparr>"
        by (simp add: createBuildkiteAnnotation_cases Some)
      have wO: "createBuildkiteAnnotation lib sinkOK ?w1 line (LineNumber e) (Timestamp e) = ?wO"
        by (simp add: createBuildkiteAnnotation_sinkOK Some)
      have C: "?C = (annotateCalls w @ [cmd]) @ drop (Suc ?n) ?C"
        using drop_calls [of lib sinkOK toks ?wO] by simp
      have d: "drop ?n ?C = cmd # drop (Suc ?n) ?C"
        by (subst C) simp
      have "streamLines lib sink toks (?wO\<lparr>logOutput := ?l1\<rparr>)
            = (streamLines lib sinkOK toks (?wO\<lparr>logOutput := ?l1\<rparr>))
                \<lparr>logOutput := ?l1 @ sinkWarnings sink (Suc ?n)
                   (drop (Suc ?n) (annotateCalls (streamLines lib sinkOK toks (?wO\<lparr>logOutput := ?l1\<rparr>))))\<rparr>"
        using Cons.IH [of "?wO\<lparr>logOutput := ?l1\<rparr>"] by simp
      also have "\<dots> = (streamLines lib sinkOK toks ?wO)
                \<lparr>logOutput := ?l1 @ sinkWarnings sink (Suc ?n) (drop (Suc ?n) ?C)\<rparr>"
        by (simp add: streamLines_sinkOK_logOutput)
      also have "\<dots> = (streamLines lib sinkOK toks ?wO)
                \<lparr>logOutput := logOutput w @ sinkWarnings sink ?n (drop ?n ?C)\<rparr>"
        by (simp add: d)
      finally show ?thesis unfolding l r wS wO .
    qed
  qed
qed

lemma sinkWarnings_append:
  "sinkWarnings sink n (xs @ ys) = sinkWarnings sink n xs @ sinkWarnings sink (n + length xs) ys"
  by (induction xs arbitrary: n) simp_all

lemma commandsFor_Cons:
  "commandsFor lib ((line, e) # les) =
     (case annotationCommand lib line (LineNumber e) (Timestamp e) of
        None \<Rightarrow> [] | Some cmd \<Rightarrow> [cmd]) @ commandsFor lib les"
  by (simp add: commandsFor_def)

lemma commandsFor_Nil: "commandsFor lib [] = []"
  by (simp add: commandsFor_def)

lemma length_lineEntries: "length (lineEntries lib n toks) = nonBlank toks"
proof (induction toks arbitrary: n)
  case Nil
  show ?case by (simp add: nonBlank_def)
next
  case (Cons tok toks)
  obtain line t where tok: "tok = (line, t)" by (cases tok)
  show ?case
  proof (cases "TrimSpace line = []")
    case True
    then show ?thesis using Cons.IH [of n] by (simp add: tok classify_blank nonBlank_def)
  next
    case False
    then obtain e where "classify lib n t line = Some e" using classify_nonblank by blast
    with False show ?thesis using Cons.IH [of "n + 1"] by (simp add: tok nonBlank_def)
  qed
qed

lemma lines_of_lineEntries:
  "map fst (lineEntries lib n toks) = filter (\<lambda>line. TrimSpace line \<noteq> []) (map fst toks)"
proof (induction toks arbitrary: n)
  case Nil
  show ?case by simp
next
  case (Cons tok toks)
  obtain line t where tok: "tok = (line, t)" by (cases tok)
  show ?case
  proof (cases "TrimSpace line = []")
    case True
    then show ?thesis using Cons.IH [of n] by (simp add: tok classify_blank)
  next
    case False
    then obtain e where "classify lib n t line = Some e" using classify_nonblank by blast
    with False show ?thesis using Cons.IH [of "n + 1"] by (simp add: tok)
  qed
qed

lemma streamLines_state:
  "streamLines lib sink toks w =
     w\<lparr>staticLineNum := staticLineNum w + word_of_nat (length (lineEntries lib (staticLineNum w) toks)),
       stdout := stdout w
         @ concat (map (\<lambda>(line, e). printSingleEntry lib e) (lineEntries lib (staticLineNum w) toks)),
       annotateCalls := annotateCalls w @ commandsFor lib (lineEntries lib (staticLineNum w) toks),
       logOutput := logOutput w
         @ sinkWarnings sink (length (annotateCalls w))
             (commandsFor lib (lineEntries lib (staticLineNum w) toks)),
       entries := entries w @ map snd (lineEntries lib (staticLineNum w) toks)\<rparr>"
proof (induction toks arbitrary: w)
  case Nil
  show ?case by (simp add: commandsFor_Nil)
next
  case (Cons tok toks)
  obtain line t where tok: "tok = (line, t)" by (cases tok)
  show ?case
  proof (cases "classify lib (staticLineNum w) t line")
    case None
    then show ?thesis
      using Cons.IH [of w] by (simp add: tok streamLines_Cons del: streamLines.simps)
  next
    case (Some e)
    let ?w1 = "w\<lparr>staticLineNum := staticLineNum w + 1, entries := entries w @ [e],
                 stdout := stdout w @ printSingleEntry lib e\<rparr>"
    let ?w2 = "createBuildkiteAnnotation lib sink ?w1 line (LineNumber e) (Timestamp e)"
    let ?L = "lineEntries lib (staticLineNum w + 1) toks"
    let ?one = "case annotationCommand lib line (LineNumber e) (Timestamp e) of
                  None \<Rightarrow> [] | Some cmd \<Rightarrow> [cmd]"
    have w2: "?w2 = w\<lparr>staticLineNum := staticLineNum w + 1, entries := entries w @ [e],
                 stdout := stdout w @ printSingleEntry lib e,
                 annotateCalls := annotateCalls w @ ?one,
                 logOutput := logOutput w @ sinkWarnings sink (length (annotateCalls w)) ?one\<rparr>"
      by (cases w) (simp add: createBuildkiteAnnotation_cases split: option.splits)
    have L: "lineEntries lib (staticLineNum w) (tok # toks) = (line, e) # ?L"
      by (simp add: tok Some)
    have "streamLines lib sink (tok # toks) w = streamLines lib sink toks ?w2"
      by (simp add: tok streamLines_Cons Some del: streamLines.simps)
    also have "\<dots> = ?w2\<lparr>staticLineNum := staticLineNum ?w2 + word_of_nat (length (lineEntries lib (staticLineNum ?w2) toks)),
       stdout := stdout ?w2
         @ concat (map (\<lambda>(line, e). printSingleEntry lib e) (lineEntries lib (staticLineNum ?w2) toks)),
       annotateCalls := annotateCalls ?w2 @ commandsFor lib (lineEntries lib (staticLineNum ?w2) toks),
       logOutput := logOutput ?w2
         @ sinkWarnings sink (length (annotateCalls ?w2))
             (commandsFor lib (lineEntries lib (staticLineNum ?w2) toks)),
       entries := entries ?w2 @ map snd (lineEntries lib (staticLineNum ?w2) toks)\<rparr>"
      by (rule Cons.IH)
    also have "\<dots> = w\<lparr>staticLineNum := staticLineNum w + word_of_nat (length (lineEntries lib (staticLineNum w) (tok # toks))),
       stdout := stdout w
         @ concat (map (\<lambda>(line, e). printSingleEntry lib e) (lineEntries lib (staticLineNum w) (tok # toks))),
       annotateCalls := annotateCalls w @ commandsFor lib (lineEntries lib (staticLineNum w) (tok # toks)),
       logOutput := logOutput w
         @ sinkWarnings sink (length (annotateCalls w))
             (commandsFor lib (lineEntries lib (staticLineNum w) (tok # toks))),
       entries := entries w @ map snd (lineEntries lib (staticLineNum w) (tok # toks))\<rparr>"
      unfolding w2 L
      by (cases w) (simp add: commandsFor_Cons sinkWarnings_append add.assoc)
    finally show ?thesis .
  qed
qed

lemma lineEntries_closed:
  "lineEntries lib n toks =
     map (\<lambda>(i, (line, t)). (line, the (classify lib (n + word_of_nat i) t line)))
       (zip [0..<nonBlank toks] (filter (\<lambda>(line, t). TrimSpace line \<noteq> []) toks))"
proof (induction toks arbitrary: n)
  case Nil
  show ?case by (simp add: nonBlank_def)
next
  case (Cons tok toks)
  obtain line t where tok: "tok = (line, t)" by (cases tok)
  let ?nb = "filter (\<lambda>(line, t). TrimSpace line \<noteq> []) toks"
  show ?case
  proof (cases "TrimSpace line = []")
    case True
    then show ?thesis using Cons.IH [of n] by (simp add: tok classify_blank nonBlank_def)
  next
    case False
    then obtain e where e: "classify lib n t line = Some e" using classify_nonblank by blast
    have k: "nonBlank (tok # toks) = Suc (nonBlank toks)"
      using False by (simp add: tok nonBlank_def)
    have u: "[0..<Suc (nonBlank toks)] = 0 # map Suc [0..<nonBlank toks]"
      by (simp add: upt_conv_Cons map_Suc_upt del: upt_Suc)
    have z: "zip (map Suc [0..<nonBlank toks]) ?nb
             = map (\<lambda>(i, x). (Suc i, x)) (zip [0..<nonBlank toks] ?nb)"
      by (simp add: zip_map1)
    have "lineEntries lib n (tok # toks) = (line, e) # lineEntries lib (n + 1) toks"
      by (simp add: tok e)
    also have "\<dots> = (line, e)
        # map (\<lambda>(i, (line, t)). (line, the (classify lib (n + 1 + word_of_nat i) t line)))
            (zip [0..<nonBlank toks] ?nb)"
      by (simp only: Cons.IH [of "n + 1"])
    also have "\<dots> = map (\<lambda>(i, (line, t)). (line, the (classify lib (n + word_of_nat i) t line)))
       (zip [0..<nonBlank (tok # toks)] (filter (\<lambda>(line, t). TrimSpace line \<noteq> []) (tok # toks)))"
      unfolding k u using False
      by (simp add: tok e zip_map1 comp_def split_def add.assoc del: upt_Suc)
    finally show ?thesis .
  qed
qed

text \<open>
  Claim C9. Whatever the sink answers, and so when every delivery fails, the loop handles
  every line: the final state has one entry for each line that is not blank after
  trimming, in order (the entry that \<^verbatim>\<open>parseLine\<close> makes of the \<open>i\<close>-th such line when the
  counter is \<open>i\<close>), the texts printed for these entries in that order, the annotation
  command of each of them, and in the log one warning for each command that failed and
  nothing else. So the state is that of the run with the sink that never fails, except for
  the log. The run is fatal only when the scanner reports an error. The same holds for the
  loop with the capture file.
\<close>

theorem sink_failure_only_logged:
  "streamLines lib sink toks initialWorld =
     \<lparr>staticLineNum = word_of_nat (nonBlank toks),
      stdout = concat (map (\<lambda>(line, e). printSingleEntry lib e) (lineEntries lib 0 toks)),
      annotateCalls = commandsFor lib (lineEntries lib 0 toks),
      logOutput = sinkWarnings sink 0 (commandsFor lib (lineEntries lib 0 toks)),
      outputFile = [],
      entries = map snd (lineEntries lib 0 toks)\<rparr>
   \<and> lineEntries lib 0 toks =
       map (\<lambda>(i, (line, t)). (line, the (classify lib (word_of_nat i) t line)))
         (zip [0..<nonBlank toks] (filter (\<lambda>(line, t). TrimSpace line \<noteq> []) toks))
   \<and> length (lineEntries lib 0 toks) = nonBlank toks
   \<and> streamLinesWithFile lib sink toks initialWorld =
       (streamLines lib sink toks initialWorld)
         \<lparr>outputFile := map (\<lambda>(line, t). line @ [NL]) toks\<rparr>
   \<and> streamLines lib sink toks initialWorld =
       (streamLines lib sinkOK toks initialWorld)
         \<lparr>logOutput := sinkWarnings sink 0
            (annotateCalls (streamLines lib sinkOK toks initialWorld))\<rparr>
   \<and> streamLinesWithFile lib sink toks initialWorld =
       (streamLinesWithFile lib sinkOK toks initialWorld)
         \<lparr>logOutput := sinkWarnings sink 0
            (annotateCalls (streamLinesWithFile lib sinkOK toks initialWorld))\<rparr>
   \<and> snd (parseAndStreamOutput lib sink sc w) =
       (case scanErr sc of None \<Rightarrow> None | Some err \<Rightarrow> Some (''Error reading input: '' @ err))"
proof (intro conjI)
  show "streamLines lib sink toks initialWorld =
     \<lparr>staticLineNum = word_of_nat (nonBlank toks),
      stdout = concat (map (\<lambda>(line, e). printSingleEntry lib e) (lineEntries lib 0 toks)),
      annotateCalls = commandsFor lib (lineEntries lib 0 toks),
      logOutput = sinkWarnings sink 0 (commandsFor lib (lineEntries lib 0 toks)),
      outputFile = [],
      entries = map snd (lineEntries lib 0 toks)\<rparr>"
    by (subst streamLines_state) (simp add: initialWorld_def length_lineEntries)
  show "lineEntries lib 0 toks =
       map (\<lambda>(i, (line, t)). (line, the (classify lib (word_of_nat i) t line)))
         (zip [0..<nonBlank toks] (filter (\<lambda>(line, t). TrimSpace line \<noteq> []) toks))"
    using lineEntries_closed [of lib 0 toks] by simp
  show "length (lineEntries lib 0 toks) = nonBlank toks"
    by (rule length_lineEntries)
  show "streamLinesWithFile lib sink toks initialWorld =
       (streamLines lib sink toks initialWorld)
         \<lparr>outputFile := map (\<lambda>(line, t). line @ [NL]) toks\<rparr>"
    by (simp add: streamLinesWithFile_eq initialWorld_def)
  show a: "streamLines lib sink toks initialWorld =
     (streamLines lib sinkOK toks initialWorld)
       \<lparr>logOutput := sinkWarnings sink 0
          (annotateCalls (streamLines lib sinkOK toks initialWorld))\<rparr>"
    using streamLines_any_sink [of lib sink toks initialWorld] by (simp add: initialWorld_def)
  show "streamLinesWithFile lib sink toks initialWorld =
     (streamLinesWithFile lib sinkOK toks initialWorld)
       \<lparr>logOutput := sinkWarnings sink 0
          (annotateCalls (streamLinesWithFile lib sinkOK toks initialWorld))\<rparr>"
    by (simp only: streamLinesWithFile_eq) (subst a, cases "streamLines lib sinkOK toks initialWorld", simp)
  show "snd (parseAndStreamOutput lib sink sc w) =
       (case scanErr sc of None \<Rightarrow> None | Some err \<Rightarrow> Some (''Error reading input: '' @ err))"
    by (simp add: parseAndStreamOutput_def)
qed

lemma plain_word_entry:
  assumes "TrimSpace l = l" "l \<noteq> []" "\<not> HasPrefix l ''{''"
  shows "classify lib n t l =
     Some \<lparr>LineNumber = n + 1, Speaker = ''SYSTEM'', EntryContent = l,
           Timestamp = formatRelativeTime t, IsJSON = False, RawLine = l\<rparr>"
  using classify_plain [of l lib n t] assms by simp

text \<open>The theorem at three lines, with the sink that always fails.\<close>

theorem sink_failure_only_logged_witness:
  "map EntryContent
     (entries (streamLines exampleLib sinkDown [(''one'', 0), (''two'', 1), (''three'', 2)]
        initialWorld)) = [''one'', ''two'', ''three'']
   \<and> map annContext
     (annotateCalls (streamLines exampleLib sinkDown [(''one'', 0), (''two'', 1), (''three'', 2)]
        initialWorld)) = [''chat-message-1'', ''chat-message-2'', ''chat-message-3'']
   \<and> logOutput (streamLines exampleLib sinkDown [(''one'', 0), (''two'', 1), (''three'', 2)]
        initialWorld)
     = [''Warning: Failed to create Buildkite annotation: exit status 1'',
        ''Warning: Failed to create Buildkite annotation: exit status 1'',
        ''Warning: Failed to create Buildkite annotation: exit status 1'']
   \<and> length (stdout (streamLines exampleLib sinkDown [(''one'', 0), (''two'', 1), (''three'', 2)]
        initialWorld)) = 3
   \<and> staticLineNum (streamLines exampleLib sinkDown [(''one'', 0), (''two'', 1), (''three'', 2)]
        initialWorld) = 3"
proof -
  let ?toks = "[(''one'', 0), (''two'', 1), (''three'', 2)] :: (string \<times> int) list"
  have tr: "TrimSpace ''one'' = ''one''" "TrimSpace ''two'' = ''two''"
    "TrimSpace ''three'' = ''three''"
    by (simp_all add: TrimSpace_def asciiSpace_def space2_def space3_def)
  have c: "classify exampleLib 0 0 ''one'' =
       Some \<lparr>LineNumber = 1, Speaker = ''SYSTEM'', EntryContent = ''one'',
             Timestamp = formatRelativeTime 0, IsJSON = False, RawLine = ''one''\<rparr>"
    "classify exampleLib 1 1 ''two'' =
       Some \<lparr>LineNumber = 2, Speaker = ''SYSTEM'', EntryContent = ''two'',
             Timestamp = formatRelativeTime 1, IsJSON = False, RawLine = ''two''\<rparr>"
    "classify exampleLib 2 2 ''three'' =
       Some \<lparr>LineNumber = 3, Speaker = ''SYSTEM'', EntryContent = ''three'',
             Timestamp = formatRelativeTime 2, IsJSON = False, RawLine = ''three''\<rparr>"
    using plain_word_entry [of "''one''" exampleLib 0 0]
      plain_word_entry [of "''two''" exampleLib 1 1]
      plain_word_entry [of "''three''" exampleLib 2 2]
    by (simp_all add: tr HasPrefix_def)
  have L: "lineEntries exampleLib 0 ?toks =
     [(''one'', \<lparr>LineNumber = 1, Speaker = ''SYSTEM'', EntryContent = ''one'',
             Timestamp = formatRelativeTime 0, IsJSON = False, RawLine = ''one''\<rparr>),
      (''two'', \<lparr>LineNumber = 2, Speaker = ''SYSTEM'', EntryContent = ''two'',
             Timestamp = formatRelativeTime 1, IsJSON = False, RawLine = ''two''\<rparr>),
      (''three'', \<lparr>LineNumber = 3, Speaker = ''SYSTEM'', EntryContent = ''three'',
             Timestamp = formatRelativeTime 2, IsJSON = False, RawLine = ''three''\<rparr>)]"
    by (simp add: c)
  have f: "fmt_d 0 1 = ''1''" "fmt_d 0 2 = ''2''" "fmt_d 0 3 = ''3''"
    by (simp_all add: fmt_d_def)
  have a: "map annContext (commandsFor exampleLib (lineEntries exampleLib 0 ?toks))
       = [''chat-message-1'', ''chat-message-2'', ''chat-message-3'']"
    unfolding L
    by (simp add: commandsFor_def annotationCommand_plain tr HasPrefix_def f)
  then have n: "length (commandsFor exampleLib (lineEntries exampleLib 0 ?toks)) = 3"
    by (metis length_map length_Cons list.size(3) numeral_3_eq_3)
  have p: "length (concat (map (\<lambda>(line, e). printSingleEntry exampleLib e)
              (lineEntries exampleLib 0 ?toks))) = 3"
    unfolding L by (simp add: printSingleEntry_def)
  have nb: "nonBlank ?toks = 3"
    by (simp add: nonBlank_def tr)
  have w: "\<And>cmds. length cmds = 3 \<Longrightarrow> sinkWarnings sinkDown 0 cmds =
      [''Warning: Failed to create Buildkite annotation: exit status 1'',
        ''Warning: Failed to create Buildkite annotation: exit status 1'',
        ''Warning: Failed to create Buildkite annotation: exit status 1'']"
  proof -
    fix cmds :: "annotation list" assume "length cmds = 3"
    then obtain x y z where "cmds = [x, y, z]"
      by (cases cmds; cases "tl cmds"; cases "tl (tl cmds)") auto
    then show "sinkWarnings sinkDown 0 cmds =
      [''Warning: Failed to create Buildkite annotation: exit status 1'',
        ''Warning: Failed to create Buildkite annotation: exit status 1'',
        ''Warning: Failed to create Buildkite annotation: exit status 1'']"
      by (simp add: sinkDown_def)
  qed
  note run = conjunct1 [OF sink_failure_only_logged [of exampleLib sinkDown ?toks]]
  have r1: "entries (streamLines exampleLib sinkDown ?toks initialWorld)
              = map snd (lineEntries exampleLib 0 ?toks)"
    by (subst run) (simp only: world.select_convs)
  have r2: "annotateCalls (streamLines exampleLib sinkDown ?toks initialWorld)
              = commandsFor exampleLib (lineEntries exampleLib 0 ?toks)"
    by (subst run) (simp only: world.select_convs)
  have r3: "logOutput (streamLines exampleLib sinkDown ?toks initialWorld)
              = sinkWarnings sinkDown 0 (commandsFor exampleLib (lineEntries exampleLib 0 ?toks))"
    by (subst run) (simp only: world.select_convs)
  have r4: "stdout (streamLines exampleLib sinkDown ?toks initialWorld)
              = concat (map (\<lambda>(line, e). printSingleEntry exampleLib e)
                  (lineEntries exampleLib 0 ?toks))"
    by (subst run) (simp only: world.select_convs)
  have r5: "staticLineNum (streamLines exampleLib sinkDown ?toks initialWorld)
              = word_of_nat (nonBlank ?toks)"
    by (subst run) (simp only: world.select_convs)
  have e: "map EntryContent (map snd (lineEntries exampleLib 0 ?toks)) = [''one'', ''two'', ''three'']"
    unfolding L by simp
  show ?thesis
    unfolding r1 r2 r3 r4 r5 nb using a p e w [OF n] by simp
qed

section \<open>The two classifiers\<close>

lemma formatAssistantItems_parts:
  "formatAssistantItems lib items ps = ps @ concat (map (assistantPartFormat lib) items)"
  by (induction items arbitrary: ps) (simp_all add: assistantPartFormat_def)

lemma cleanAssistantItems_parts:
  "cleanAssistantItems lib items ps = ps @ concat (map (assistantPartClean lib) items)"
  by (induction items arbitrary: ps) (simp_all add: assistantPartClean_def)

lemma formatUserItems_parts:
  "formatUserItems lib items ps = ps @ concat (map (userPartFormat lib) items)"
  by (induction items arbitrary: ps) (simp_all add: userPartFormat_def)

lemma cleanUserItems_parts:
  "cleanUserItems lib items ps h =
     (ps @ concat (map (userPartClean lib) items),
      h \<or> (\<exists>item \<in> set items. ItemType item = ''tool_result'' \<and> IsError item))"
  by (induction items arbitrary: ps h) (auto simp: userPartClean_def)

lemma formatJSONMessage_content:
  "snd (formatJSONMessage lib msg) =
     (if Type msg = ''system'' then
        (if Subtype msg = ''init'' then
           ''Session initialized (ID: '' @ SessionID msg @ '', Model: '' @ Model msg @ '')''
         else ''System message'')
      else if Type msg = ''assistant'' then
        Join (concat (map (assistantPartFormat lib) (Content msg))) [NL]
      else if Type msg = ''user'' then
        Join (concat (map (userPartFormat lib) (Content msg))) [NL]
      else unknownMessageType)"
  by (simp add: formatJSONMessage_def formatAssistantItems_parts formatUserItems_parts)

lemma extractClean_content:
  "fst (snd (extractCleanJSONContentWithErrorCheck lib msg)) =
     (if Type msg = ''system'' then
        (if Subtype msg = ''init'' then
           ''Session initialized (ID: '' @ SessionID msg @ '', Model: '' @ Model msg @ '')''
         else ''System message'')
      else if Type msg = ''assistant'' then
        Join (concat (map (assistantPartClean lib) (Content msg))) [NL, NL]
      else if Type msg = ''user'' then
        Join (concat (map (userPartClean lib) (Content msg))) [NL, NL]
      else unknownMessageType)"
  by (simp add: extractCleanJSONContentWithErrorCheck_def cleanAssistantItems_parts
      cleanUserItems_parts)

lemma extractClean_speaker:
  "fst (extractCleanJSONContentWithErrorCheck lib msg) = fst (formatJSONMessage lib msg)"
  by (simp add: extractCleanJSONContentWithErrorCheck_def formatJSONMessage_def
      cleanUserItems_parts)

lemma extractClean_hasError:
  "snd (snd (extractCleanJSONContentWithErrorCheck lib msg)) \<longleftrightarrow>
     Type msg = ''user'' \<and>
     (\<exists>item \<in> set (Content msg). ItemType item = ''tool_result'' \<and> IsError item)"
  by (auto simp: extractCleanJSONContentWithErrorCheck_def cleanUserItems_parts)

lemma resultDisclosure_prefix:
  "HasPrefix (resultDisclosure ind s) (ind @ [NL])"
  by (simp add: resultDisclosure_def resultDetails_def HasPrefix_def split: prod.splits)

section \<open>The error flag\<close>

text \<open>
  Claim C2, as the code has it. The error flag that the annotation classifier returns is
  true exactly for a \<^verbatim>\<open>user\<close> message with at least one \<^verbatim>\<open>tool_result\<close> item whose
  \<^verbatim>\<open>IsError\<close> is set; for every other kind it is false. The content of a \<^verbatim>\<open>user\<close>
  message is its items' parts joined by a blank line. A \<^verbatim>\<open>tool_result\<close> item with
  \<^verbatim>\<open>IsError\<close> and a non-empty result content contributes a part that starts with the
  error indicator, which differs from the indicator of the other results; an item with no
  result content contributes the notice that a result was received, whatever its
  \<^verbatim>\<open>IsError\<close>.
\<close>

theorem hasError_iff_tool_result_error:
  "(snd (snd (extractCleanJSONContentWithErrorCheck lib msg)) \<longleftrightarrow>
      Type msg = ''user'' \<and>
      (\<exists>item \<in> set (Content msg). ItemType item = ''tool_result'' \<and> IsError item))
   \<and> (Type msg = ''user'' \<longrightarrow>
        fst (snd (extractCleanJSONContentWithErrorCheck lib msg))
          = Join (concat (map (userPartClean lib) (Content msg))) [NL, NL])
   \<and> (ItemType item = ''tool_result'' \<and> IsError item \<and> resultContentOf lib item \<noteq> [] \<longrightarrow>
        userPartClean lib item = [resultDisclosure toolErrorIndicator (resultContentOf lib item)]
        \<and> HasPrefix (resultDisclosure toolErrorIndicator (resultContentOf lib item))
             (toolErrorIndicator @ [NL]))
   \<and> (ItemType item = ''tool_result'' \<and> \<not> IsError item \<and> resultContentOf lib item \<noteq> [] \<longrightarrow>
        userPartClean lib item = [resultDisclosure toolResultIndicator (resultContentOf lib item)])
   \<and> (ItemType item = ''tool_result'' \<and> resultContentOf lib item = [] \<longrightarrow>
        userPartClean lib item = [toolResultReceived])
   \<and> \<not> HasPrefix toolErrorIndicator toolResultIndicator
   \<and> \<not> HasPrefix toolResultIndicator toolErrorIndicator"
proof (intro conjI impI)
  show "snd (snd (extractCleanJSONContentWithErrorCheck lib msg)) \<longleftrightarrow>
      Type msg = ''user'' \<and>
      (\<exists>item \<in> set (Content msg). ItemType item = ''tool_result'' \<and> IsError item)"
    by (rule extractClean_hasError)
  show "fst (snd (extractCleanJSONContentWithErrorCheck lib msg))
          = Join (concat (map (userPartClean lib) (Content msg))) [NL, NL]"
    if "Type msg = ''user''"
    using that by (simp add: extractClean_content)
  show "userPartClean lib item = [resultDisclosure toolErrorIndicator (resultContentOf lib item)]"
    if "ItemType item = ''tool_result'' \<and> IsError item \<and> resultContentOf lib item \<noteq> []"
    using that by (simp add: userPartClean_def cleanToolResult_def)
  show "HasPrefix (resultDisclosure toolErrorIndicator (resultContentOf lib item))
             (toolErrorIndicator @ [NL])"
    by (rule resultDisclosure_prefix)
  show "userPartClean lib item = [resultDisclosure toolResultIndicator (resultContentOf lib item)]"
    if "ItemType item = ''tool_result'' \<and> \<not> IsError item \<and> resultContentOf lib item \<noteq> []"
    using that by (simp add: userPartClean_def cleanToolResult_def)
  show "userPartClean lib item = [toolResultReceived]"
    if "ItemType item = ''tool_result'' \<and> resultContentOf lib item = []"
    using that by (simp add: userPartClean_def cleanToolResult_def)
  show "\<not> HasPrefix toolErrorIndicator toolResultIndicator"
    by (simp add: HasPrefix_def toolErrorIndicator_def toolResultIndicator_def checkMark_def
        crossMark_def)
  show "\<not> HasPrefix toolResultIndicator toolErrorIndicator"
    by (simp add: HasPrefix_def toolErrorIndicator_def toolResultIndicator_def checkMark_def
        crossMark_def)
qed

text \<open>
  The theorem at a failed tool result with the text \<^verbatim>\<open>boom\<close>, at a successful one of
  three lines, and at an assistant message.
\<close>

theorem hasError_iff_tool_result_error_witness:
  "snd (snd (extractCleanJSONContentWithErrorCheck exampleLib errorBoom))
   \<and> fst (snd (extractCleanJSONContentWithErrorCheck exampleLib errorBoom))
       = toolErrorIndicator @ ''\<newline>boom''
   \<and> \<not> snd (snd (extractCleanJSONContentWithErrorCheck exampleLib threeLineResult))
   \<and> fst (snd (extractCleanJSONContentWithErrorCheck exampleLib threeLineResult))
       = resultDetails toolResultIndicator ''l1\<newline>l2'' ''l3''
   \<and> \<not> snd (snd (extractCleanJSONContentWithErrorCheck exampleLib twoTexts))"
proof -
  have v: "\<not> Valid exampleLib ''boom''" "\<not> Valid exampleLib ''l1\<newline>l2\<newline>l3''"
    by (simp_all add: exampleLib_def emptyAssistantLine_def resultLine_def arrayLine_def
        sentinelLine_def)
  have b: "resultContentOf exampleLib (hd (Content errorBoom)) = ''boom''"
    by (simp add: errorBoom_def resultContentOf_def v)
  have t: "resultContentOf exampleLib (hd (Content threeLineResult)) = ''l1\<newline>l2\<newline>l3''"
    by (simp add: threeLineResult_def resultContentOf_def v)
  have d1: "resultDisclosure toolErrorIndicator ''boom'' = toolErrorIndicator @ ''\<newline>boom''"
    by (simp add: resultDisclosure_def needsDisclosure_def)
  have d2: "resultDisclosure toolResultIndicator ''l1\<newline>l2\<newline>l3''
            = resultDetails toolResultIndicator ''l1\<newline>l2'' ''l3''"
    by (simp add: resultDisclosure_def needsDisclosure_def previewRemaining_def)
  show ?thesis
    using hasError_iff_tool_result_error [of exampleLib errorBoom "hd (Content errorBoom)"]
      hasError_iff_tool_result_error [of exampleLib threeLineResult "hd (Content threeLineResult)"]
      hasError_iff_tool_result_error [of exampleLib twoTexts "hd (Content twoTexts)"]
    unfolding b t
    by (simp add: errorBoom_def threeLineResult_def twoTexts_def d1 d2)
qed

text \<open>
  C2 as stated fails at a tool result with \<^verbatim>\<open>is_error\<close> set and neither text nor
  content: the flag is set, and the part is the notice with the check mark, not the error
  indicator.
\<close>

theorem error_without_content_counterexample:
  "extractCleanJSONContentWithErrorCheck exampleLib errorNoContent
     = (''USER'', checkMark @ '' Tool result received'', True)
   \<and> \<not> HasPrefix (checkMark @ '' Tool result received'') toolErrorIndicator"
  by (simp add: extractCleanJSONContentWithErrorCheck_def errorNoContent_def cleanToolResult_def
      resultContentOf_def toolResultReceived_def HasPrefix_def toolErrorIndicator_def
      checkMark_def crossMark_def)

section \<open>Transcript content and annotation content\<close>

lemma parts_same_length:
  "length (assistantPartFormat lib item) = length (assistantPartClean lib item)"
  "length (userPartFormat lib item) = length (userPartClean lib item)"
  by (simp_all add: assistantPartFormat_def assistantPartClean_def userPartFormat_def
      userPartClean_def)

text \<open>
  Claim C3, as the code has it. The two classifiers give the same speaker, and the same
  content for a message that is neither \<^verbatim>\<open>assistant\<close> nor \<^verbatim>\<open>user\<close>. For these two kinds
  both contents are made of one part for each item that contributes, in the order of the
  items, and an item contributes to one exactly when it contributes to the other; the
  transcript joins the parts with a newline and the annotation with a blank line. Parts of
  plain text are the same. For a tool result the transcript has the coloured indicator
  and the whole result content, with no progressive disclosure, and the annotation has the
  plain indicator and the result content under progressive disclosure. For a tool use the
  transcript has the whole compact serialization of the input, and the annotation has the
  indented serialization under progressive disclosure.
\<close>

theorem annotation_content_from_same_items:
  "fst (extractCleanJSONContentWithErrorCheck lib msg) = fst (formatJSONMessage lib msg)
   \<and> (Type msg \<noteq> ''assistant'' \<and> Type msg \<noteq> ''user'' \<longrightarrow>
        fst (snd (extractCleanJSONContentWithErrorCheck lib msg)) = snd (formatJSONMessage lib msg))
   \<and> (Type msg = ''assistant'' \<longrightarrow>
        snd (formatJSONMessage lib msg)
          = Join (concat (map (assistantPartFormat lib) (Content msg))) [NL]
        \<and> fst (snd (extractCleanJSONContentWithErrorCheck lib msg))
          = Join (concat (map (assistantPartClean lib) (Content msg))) [NL, NL])
   \<and> (Type msg = ''user'' \<longrightarrow>
        snd (formatJSONMessage lib msg)
          = Join (concat (map (userPartFormat lib) (Content msg))) [NL]
        \<and> fst (snd (extractCleanJSONContentWithErrorCheck lib msg))
          = Join (concat (map (userPartClean lib) (Content msg))) [NL, NL])
   \<and> length (assistantPartFormat lib item) = length (assistantPartClean lib item)
   \<and> length (userPartFormat lib item) = length (userPartClean lib item)
   \<and> (ItemType item \<noteq> ''tool_use'' \<longrightarrow> assistantPartFormat lib item = assistantPartClean lib item)
   \<and> (ItemType item \<noteq> ''tool_result'' \<longrightarrow> userPartFormat lib item = userPartClean lib item)
   \<and> (ItemType item = ''tool_result'' \<and> resultContentOf lib item \<noteq> [] \<longrightarrow>
        userPartFormat lib item =
          [(if IsError item then ColorRed @ toolErrorIndicator @ ColorReset
            else ColorMagenta @ toolResultIndicator @ ColorReset)
           @ [NL] @ resultContentOf lib item]
        \<and> userPartClean lib item =
          [resultDisclosure (if IsError item then toolErrorIndicator else toolResultIndicator)
             (resultContentOf lib item)])
   \<and> (ItemType item = ''tool_result'' \<and> resultContentOf lib item = [] \<longrightarrow>
        userPartFormat lib item = [ColorMagenta @ toolResultReceived @ ColorReset]
        \<and> userPartClean lib item = [toolResultReceived])
   \<and> (ItemType item = ''tool_use'' \<longrightarrow>
        assistantPartFormat lib item = [formatToolUse lib item]
        \<and> assistantPartClean lib item = [cleanToolUse lib item])
   \<and> (Input item = None \<longrightarrow>
        formatToolUse lib item = ColorGreen @ wrench @ '' Using tool: '' @ Name item @ ColorReset
        \<and> cleanToolUse lib item = wrench @ '' Using tool: '' @ Name item)
   \<and> (Input item = Some v \<and> Marshal lib (Some v) = Some compact
         \<and> compact \<noteq> [] \<and> compact \<noteq> ''{}'' \<longrightarrow>
        formatToolUse lib item =
          ColorGreen @ wrench @ '' Using tool: '' @ Name item @ '' with '' @ compact @ ColorReset)
   \<and> (Input item = Some v \<and> MarshalIndent lib (Some v) = Some indented
         \<and> indented \<noteq> [] \<and> indented \<noteq> ''{}'' \<longrightarrow>
        cleanToolUse lib item =
          wrench @ '' Using tool: '' @ Name item @ inputDisclosure indented)"
proof (intro conjI impI)
  show "assistantPartFormat lib item = [formatToolUse lib item]"
    if "ItemType item = ''tool_use''"
    using that by (simp add: assistantPartFormat_def)
  show "assistantPartClean lib item = [cleanToolUse lib item]"
    if "ItemType item = ''tool_use''"
    using that by (simp add: assistantPartClean_def)
  show "formatToolUse lib item = ColorGreen @ wrench @ '' Using tool: '' @ Name item @ ColorReset"
    if "Input item = None"
    using that by (simp add: formatToolUse_def)
  show "cleanToolUse lib item = wrench @ '' Using tool: '' @ Name item"
    if "Input item = None"
    using that by (simp add: cleanToolUse_def)
  show "formatToolUse lib item =
          ColorGreen @ wrench @ '' Using tool: '' @ Name item @ '' with '' @ compact @ ColorReset"
    if "Input item = Some v \<and> Marshal lib (Some v) = Some compact
         \<and> compact \<noteq> [] \<and> compact \<noteq> ''{}''"
    using that by (simp add: formatToolUse_def)
  show "cleanToolUse lib item =
          wrench @ '' Using tool: '' @ Name item @ inputDisclosure indented"
    if "Input item = Some v \<and> MarshalIndent lib (Some v) = Some indented
         \<and> indented \<noteq> [] \<and> indented \<noteq> ''{}''"
    using that by (simp add: cleanToolUse_def)
  show "fst (extractCleanJSONContentWithErrorCheck lib msg) = fst (formatJSONMessage lib msg)"
    by (rule extractClean_speaker)
  show "fst (snd (extractCleanJSONContentWithErrorCheck lib msg)) = snd (formatJSONMessage lib msg)"
    if "Type msg \<noteq> ''assistant'' \<and> Type msg \<noteq> ''user''"
    using that by (simp add: extractClean_content formatJSONMessage_content)
  show "snd (formatJSONMessage lib msg)
          = Join (concat (map (assistantPartFormat lib) (Content msg))) [NL]"
    if "Type msg = ''assistant''"
    using that by (simp add: formatJSONMessage_content)
  show "fst (snd (extractCleanJSONContentWithErrorCheck lib msg))
          = Join (concat (map (assistantPartClean lib) (Content msg))) [NL, NL]"
    if "Type msg = ''assistant''"
    using that by (simp add: extractClean_content)
  show "snd (formatJSONMessage lib msg)
          = Join (concat (map (userPartFormat lib) (Content msg))) [NL]"
    if "Type msg = ''user''"
    using that by (simp add: formatJSONMessage_content)
  show "fst (snd (extractCleanJSONContentWithErrorCheck lib msg))
          = Join (concat (map (userPartClean lib) (Content msg))) [NL, NL]"
    if "Type msg = ''user''"
    using that by (simp add: extractClean_content)
  show "length (assistantPartFormat lib item) = length (assistantPartClean lib item)"
    by (rule parts_same_length)
  show "length (userPartFormat lib item) = length (userPartClean lib item)"
    by (rule parts_same_length)
  show "assistantPartFormat lib item = assistantPartClean lib item"
    if "ItemType item \<noteq> ''tool_use''"
    using that by (simp add: assistantPartFormat_def assistantPartClean_def)
  show "userPartFormat lib item = userPartClean lib item"
    if "ItemType item \<noteq> ''tool_result''"
    using that by (simp add: userPartFormat_def userPartClean_def)
  show "userPartFormat lib item =
          [(if IsError item then ColorRed @ toolErrorIndicator @ ColorReset
            else ColorMagenta @ toolResultIndicator @ ColorReset)
           @ [NL] @ resultContentOf lib item]"
    if "ItemType item = ''tool_result'' \<and> resultContentOf lib item \<noteq> []"
    using that by (simp add: userPartFormat_def formatToolResult_def)
  show "userPartClean lib item =
          [resultDisclosure (if IsError item then toolErrorIndicator else toolResultIndicator)
             (resultContentOf lib item)]"
    if "ItemType item = ''tool_result'' \<and> resultContentOf lib item \<noteq> []"
    using that by (simp add: userPartClean_def cleanToolResult_def)
  show "userPartFormat lib item = [ColorMagenta @ toolResultReceived @ ColorReset]"
    if "ItemType item = ''tool_result'' \<and> resultContentOf lib item = []"
    using that by (simp add: userPartFormat_def formatToolResult_def)
  show "userPartClean lib item = [toolResultReceived]"
    if "ItemType item = ''tool_result'' \<and> resultContentOf lib item = []"
    using that by (simp add: userPartClean_def cleanToolResult_def)
qed

text \<open>
  The theorem at an assistant message of two texts, a failed tool result and a message of an
  unrecognized kind.
\<close>

theorem annotation_content_from_same_items_witness:
  "snd (formatJSONMessage exampleLib twoTexts) = ''a\<newline>b''
   \<and> fst (snd (extractCleanJSONContentWithErrorCheck exampleLib twoTexts)) = ''a\<newline>\<newline>b''
   \<and> snd (formatJSONMessage exampleLib errorBoom)
       = ColorRed @ toolErrorIndicator @ ColorReset @ ''\<newline>boom''
   \<and> fst (snd (extractCleanJSONContentWithErrorCheck exampleLib errorBoom))
       = toolErrorIndicator @ ''\<newline>boom''
   \<and> fst (snd (extractCleanJSONContentWithErrorCheck exampleLib
        \<lparr>Type = ''result'', Subtype = [], Content = [], SessionID = [], Model = []\<rparr>))
       = snd (formatJSONMessage exampleLib
        \<lparr>Type = ''result'', Subtype = [], Content = [], SessionID = [], Model = []\<rparr>)"
proof -
  have v: "\<not> Valid exampleLib ''boom''"
    by (simp add: exampleLib_def emptyAssistantLine_def resultLine_def arrayLine_def
        sentinelLine_def)
  have b: "resultContentOf exampleLib (hd (Content errorBoom)) = ''boom''"
    by (simp add: errorBoom_def resultContentOf_def v)
  have d1: "resultDisclosure toolErrorIndicator ''boom'' = toolErrorIndicator @ ''\<newline>boom''"
    by (simp add: resultDisclosure_def needsDisclosure_def)
  have i: "ItemType (hd (Content errorBoom)) = ''tool_result''" "IsError (hd (Content errorBoom))"
    "Content errorBoom = [hd (Content errorBoom)]" "Type errorBoom = ''user''"
    by (simp_all add: errorBoom_def)
  have e: "snd (formatJSONMessage exampleLib errorBoom)
       = ColorRed @ toolErrorIndicator @ ColorReset @ ''\<newline>boom''
     \<and> fst (snd (extractCleanJSONContentWithErrorCheck exampleLib errorBoom))
       = toolErrorIndicator @ ''\<newline>boom''"
    using annotation_content_from_same_items [of exampleLib errorBoom "hd (Content errorBoom)"]
    unfolding b by (subst (asm) (1 2) i(3)) (simp add: i(1,2,4) d1)
  have t: "snd (formatJSONMessage exampleLib twoTexts) = ''a\<newline>b''
   \<and> fst (snd (extractCleanJSONContentWithErrorCheck exampleLib twoTexts)) = ''a\<newline>\<newline>b''"
    using annotation_content_from_same_items [of exampleLib twoTexts "hd (Content twoTexts)"]
    by (simp add: twoTexts_def assistantPartFormat_def assistantPartClean_def)
  show ?thesis
    using e t annotation_content_from_same_items [of exampleLib
        "\<lparr>Type = ''result'', Subtype = [], Content = [], SessionID = [], Model = []\<rparr>"]
    by simp
qed

text \<open>
  C3 as stated fails twice. Two texts, with no styling and nothing to disclose, are joined
  by a newline in the transcript and by a blank line in the annotation. A tool result of
  three lines is printed whole in the transcript, where no progressive disclosure is
  applied, and cut after two lines in the annotation.
\<close>

theorem transcript_differs_from_annotation_counterexample:
  "snd (formatJSONMessage exampleLib twoTexts) = ''a\<newline>b''
   \<and> fst (snd (extractCleanJSONContentWithErrorCheck exampleLib twoTexts)) = ''a\<newline>\<newline>b''
   \<and> snd (formatJSONMessage exampleLib threeLineResult)
       = ColorMagenta @ toolResultIndicator @ ColorReset @ ''\<newline>l1\<newline>l2\<newline>l3''
   \<and> fst (snd (extractCleanJSONContentWithErrorCheck exampleLib threeLineResult))
       = resultDetails toolResultIndicator ''l1\<newline>l2'' ''l3''"
proof -
  have v: "\<not> Valid exampleLib ''l1\<newline>l2\<newline>l3''"
    by (simp add: exampleLib_def emptyAssistantLine_def resultLine_def arrayLine_def
        sentinelLine_def)
  have d2: "resultDisclosure toolResultIndicator ''l1\<newline>l2\<newline>l3''
            = resultDetails toolResultIndicator ''l1\<newline>l2'' ''l3''"
    by (simp add: resultDisclosure_def needsDisclosure_def previewRemaining_def)
  show ?thesis
    by (simp add: formatJSONMessage_def extractCleanJSONContentWithErrorCheck_def twoTexts_def
        threeLineResult_def formatToolResult_def cleanToolResult_def resultContentOf_def v d2)
qed

section \<open>Entries with empty content\<close>

lemma classify_json:
  "TrimSpace line \<noteq> [] \<Longrightarrow> HasPrefix (TrimSpace line) ''{'' \<Longrightarrow>
   Unmarshal lib (TrimSpace line) = Some msg \<Longrightarrow>
   classify lib n t line =
     Some \<lparr>LineNumber = n + 1, Speaker = fst (formatJSONMessage lib msg),
           EntryContent = snd (formatJSONMessage lib msg),
           Timestamp = formatRelativeTime t, IsJSON = True, RawLine = TrimSpace line\<rparr>"
  by (simp add: classify_def parseLine_def initialWorld_def Let_def split: prod.splits)

lemma annotationCommand_None_iff:
  "annotationCommand lib line n ts = None \<longleftrightarrow>
     TrimSpace line = []
     \<or> (HasPrefix (TrimSpace line) ''{''
        \<and> (\<exists>msg. Unmarshal lib (TrimSpace line) = Some msg
              \<and> fst (snd (extractCleanJSONContentWithErrorCheck lib msg)) = unknownMessageType))"
  by (auto simp: annotationCommand_def Let_def split: option.splits prod.splits if_splits)

lemma formatToolUse_nonempty: "formatToolUse lib item \<noteq> []"
  by (simp add: formatToolUse_def ColorGreen_def Let_def)

lemma formatToolResult_nonempty: "formatToolResult lib item \<noteq> []"
  by (simp add: formatToolResult_def ColorMagenta_def ColorRed_def Let_def)

lemma parts_nonempty:
  "p \<in> set (assistantPartFormat lib item) \<Longrightarrow> p \<noteq> []"
  "p \<in> set (userPartFormat lib item) \<Longrightarrow> p \<noteq> []"
  using formatToolUse_nonempty [of lib item] formatToolResult_nonempty [of lib item]
  by (auto simp: assistantPartFormat_def userPartFormat_def split: if_splits)

lemma Join_Nil_parts: "Join ps sep = [] \<Longrightarrow> \<forall>p \<in> set ps. p \<noteq> [] \<Longrightarrow> ps = []"
  by (cases ps; cases "tl ps") auto

lemma concat_parts_Nil:
  assumes "concat (map f items) = []" and "\<And>item. length (f item) = length (g item)"
  shows "concat (map g items) = []"
proof -
  have "\<forall>item \<in> set items. f item = []" using assms(1) by simp
  then have "\<forall>item \<in> set items. g item = []" using assms(2) by (metis length_0_conv)
  then show ?thesis by simp
qed

lemma empty_transcript_content:
  assumes "snd (formatJSONMessage lib msg) = []"
  shows "fst (snd (extractCleanJSONContentWithErrorCheck lib msg)) = []"
proof -
  have u: "unknownMessageType \<noteq> []" by (simp add: unknownMessageType_def)
  consider (a) "Type msg = ''assistant''" | (u) "Type msg = ''user''"
    using assms by (auto simp: formatJSONMessage_content unknownMessageType_def split: if_splits)
  then show ?thesis
  proof cases
    case a
    with assms have j: "Join (concat (map (assistantPartFormat lib) (Content msg))) [NL] = []"
      by (simp add: formatJSONMessage_content)
    have "concat (map (assistantPartFormat lib) (Content msg)) = []"
      by (rule Join_Nil_parts [OF j]) (auto dest: parts_nonempty)
    then have cc: "concat (map (assistantPartClean lib) (Content msg)) = []"
      by (rule concat_parts_Nil) (rule parts_same_length)
    show ?thesis by (simp add: extractClean_content a cc)
  next
    case u
    with assms have j: "Join (concat (map (userPartFormat lib) (Content msg))) [NL] = []"
      by (simp add: formatJSONMessage_content)
    have "concat (map (userPartFormat lib) (Content msg)) = []"
      by (rule Join_Nil_parts [OF j]) (auto dest: parts_nonempty)
    then have cc: "concat (map (userPartClean lib) (Content msg)) = []"
      by (rule concat_parts_Nil) (rule parts_same_length)
    show ?thesis by (simp add: extractClean_content u cc)
  qed
qed

lemma empty_entry_is_annotated:
  assumes "classify lib k t line = Some e" and "EntryContent e = []"
  shows "annotationCommand lib line n ts \<noteq> None" and "IsJSON e"
    and "\<exists>msg. Unmarshal lib (TrimSpace line) = Some msg
           \<and> fst (snd (extractCleanJSONContentWithErrorCheck lib msg)) = []"
proof -
  have nb: "TrimSpace line \<noteq> []" using assms(1) classify_Some_nonblank by blast
  have d: "HasPrefix (TrimSpace line) ''{'' \<and> Unmarshal lib (TrimSpace line) \<noteq> None"
  proof (rule ccontr)
    assume "\<not> ?thesis"
    then have "\<not> HasPrefix (TrimSpace line) ''{'' \<or> Unmarshal lib (TrimSpace line) = None"
      by simp
    from classify_plain [OF nb this, of k t] assms show False using nb by simp
  qed
  then obtain msg where m: "Unmarshal lib (TrimSpace line) = Some msg" by auto
  from classify_json [OF nb _ m, of k t] d assms
  have c: "snd (formatJSONMessage lib msg) = []" and j: "IsJSON e" by auto
  show "IsJSON e" by (rule j)
  have x: "fst (snd (extractCleanJSONContentWithErrorCheck lib msg)) = []"
    by (rule empty_transcript_content [OF c])
  with m show "\<exists>msg. Unmarshal lib (TrimSpace line) = Some msg
           \<and> fst (snd (extractCleanJSONContentWithErrorCheck lib msg)) = []"
    by blast
  from x have "fst (snd (extractCleanJSONContentWithErrorCheck lib msg)) \<noteq> unknownMessageType"
    by (simp add: unknownMessageType_def)
  then show "annotationCommand lib line n ts \<noteq> None"
    using nb m by (simp add: annotationCommand_None_iff)
qed

text \<open>
  Claim C4, as the code has it. When the content of the entry of a line is empty, nothing is
  printed, but the entry exists and has taken a line number. The line is a decoded message
  for which the annotation classifier gives an empty content too, and the annotation
  emitter runs its command for the line: the state after the line has the counter
  advanced, the entry in the trace, one more annotation call, and standard output as
  before.
\<close>

theorem empty_content_not_printed_but_annotated:
  assumes "fst (parseLine lib w t line) = Some e" and "EntryContent e = []"
  shows "printSingleEntry lib e = []
       \<and> IsJSON e
       \<and> (\<exists>msg. Unmarshal lib (TrimSpace line) = Some msg
             \<and> fst (snd (extractCleanJSONContentWithErrorCheck lib msg)) = [])
       \<and> (\<exists>cmd. annotationCommand lib line (LineNumber e) (Timestamp e) = Some cmd
            \<and> streamLines lib sink [(line, t)] w =
                w\<lparr>staticLineNum := staticLineNum w + 1,
                  entries := entries w @ [e],
                  annotateCalls := annotateCalls w @ [cmd],
                  logOutput := logOutput w @ sinkWarnings sink (length (annotateCalls w)) [cmd]\<rparr>)"
proof -
  have c: "classify lib (staticLineNum w) t line = Some e"
    using assms(1) by (simp add: parseLine_classify)
  have p: "printSingleEntry lib e = []"
    using assms(2) by (simp add: printSingleEntry_def)
  obtain cmd where a: "annotationCommand lib line (LineNumber e) (Timestamp e) = Some cmd"
    using empty_entry_is_annotated(1) [OF c assms(2)] by blast
  have "streamLines lib sink [(line, t)] w =
          createBuildkiteAnnotation lib sink
            (w\<lparr>staticLineNum := staticLineNum w + 1, entries := entries w @ [e],
               stdout := stdout w @ printSingleEntry lib e\<rparr>)
            line (LineNumber e) (Timestamp e)"
    by (simp add: streamLines_Cons c del: streamLines.simps(2))
  also have "\<dots> = w\<lparr>staticLineNum := staticLineNum w + 1,
            entries := entries w @ [e],
            annotateCalls := annotateCalls w @ [cmd],
            logOutput := logOutput w @ sinkWarnings sink (length (annotateCalls w)) [cmd]\<rparr>"
    by (cases w) (simp add: p a createBuildkiteAnnotation_cases)
  finally show ?thesis
    using p a empty_entry_is_annotated(2,3) [OF c assms(2)] by blast
qed

section \<open>When no annotation is sent\<close>

lemma createBuildkiteAnnotation_unchanged_iff:
  "createBuildkiteAnnotation lib sink w line n ts = w \<longleftrightarrow> annotationCommand lib line n ts = None"
proof (cases "annotationCommand lib line n ts")
  case None
  then show ?thesis by (simp add: createBuildkiteAnnotation_cases)
next
  case (Some cmd)
  have "annotateCalls (createBuildkiteAnnotation lib sink w line n ts) = annotateCalls w @ [cmd]"
    by (simp add: createBuildkiteAnnotation_cases Some)
  then have "createBuildkiteAnnotation lib sink w line n ts \<noteq> w" by auto
  with Some show ?thesis by simp
qed

text \<open>
  Claim C5, as the code has it. The annotation emitter returns without running a command
  exactly when the line is blank, or is decoded as a JSON message whose content, as the
  annotation classifier derives it, is the text \<^verbatim>\<open>Unknown message type\<close>, whatever the
  kind of the message; only then is the state left as it was. A message whose kind is not
  \<^verbatim>\<open>system\<close>, \<^verbatim>\<open>assistant\<close> or \<^verbatim>\<open>user\<close> has that content in both classifiers: its line
  is not annotated, and its entry is printed in the transcript.
\<close>

theorem annotation_skipped_iff_decoded_unknown_content:
  "(annotationCommand lib line n ts = None \<longleftrightarrow>
      TrimSpace line = []
      \<or> (HasPrefix (TrimSpace line) ''{''
         \<and> (\<exists>msg. Unmarshal lib (TrimSpace line) = Some msg
               \<and> fst (snd (extractCleanJSONContentWithErrorCheck lib msg)) = unknownMessageType)))
   \<and> (createBuildkiteAnnotation lib sink w line n ts = w \<longleftrightarrow>
        annotationCommand lib line n ts = None)
   \<and> (Type msg \<noteq> ''system'' \<and> Type msg \<noteq> ''assistant'' \<and> Type msg \<noteq> ''user'' \<longrightarrow>
        fst (snd (extractCleanJSONContentWithErrorCheck lib msg)) = unknownMessageType
        \<and> snd (formatJSONMessage lib msg) = unknownMessageType)
   \<and> (TrimSpace line \<noteq> [] \<and> HasPrefix (TrimSpace line) ''{''
        \<and> Unmarshal lib (TrimSpace line) = Some msg
        \<and> Type msg \<noteq> ''system'' \<and> Type msg \<noteq> ''assistant'' \<and> Type msg \<noteq> ''user'' \<longrightarrow>
        annotationCommand lib line n ts = None
        \<and> (\<exists>e. fst (parseLine lib w t line) = Some e \<and> EntryContent e = unknownMessageType
               \<and> printSingleEntry lib e \<noteq> []))"
proof (intro conjI impI)
  show "annotationCommand lib line n ts = None \<longleftrightarrow>
      TrimSpace line = []
      \<or> (HasPrefix (TrimSpace line) ''{''
         \<and> (\<exists>msg. Unmarshal lib (TrimSpace line) = Some msg
               \<and> fst (snd (extractCleanJSONContentWithErrorCheck lib msg)) = unknownMessageType))"
    by (rule annotationCommand_None_iff)
  show "createBuildkiteAnnotation lib sink w line n ts = w \<longleftrightarrow>
        annotationCommand lib line n ts = None"
    by (rule createBuildkiteAnnotation_unchanged_iff)
  show "fst (snd (extractCleanJSONContentWithErrorCheck lib msg)) = unknownMessageType"
    if "Type msg \<noteq> ''system'' \<and> Type msg \<noteq> ''assistant'' \<and> Type msg \<noteq> ''user''"
    using that by (simp add: extractClean_content)
  show "snd (formatJSONMessage lib msg) = unknownMessageType"
    if "Type msg \<noteq> ''system'' \<and> Type msg \<noteq> ''assistant'' \<and> Type msg \<noteq> ''user''"
    using that by (simp add: formatJSONMessage_content)
  assume a: "TrimSpace line \<noteq> [] \<and> HasPrefix (TrimSpace line) ''{''
        \<and> Unmarshal lib (TrimSpace line) = Some msg
        \<and> Type msg \<noteq> ''system'' \<and> Type msg \<noteq> ''assistant'' \<and> Type msg \<noteq> ''user''"
  then have c: "fst (snd (extractCleanJSONContentWithErrorCheck lib msg)) = unknownMessageType"
    and f: "snd (formatJSONMessage lib msg) = unknownMessageType"
    by (simp_all add: extractClean_content formatJSONMessage_content)
  show "annotationCommand lib line n ts = None"
    using a c by (simp add: annotationCommand_None_iff)
  let ?e = "\<lparr>LineNumber = staticLineNum w + 1, Speaker = fst (formatJSONMessage lib msg),
           EntryContent = snd (formatJSONMessage lib msg),
           Timestamp = formatRelativeTime t, IsJSON = True, RawLine = TrimSpace line\<rparr>"
  have "fst (parseLine lib w t line) = Some ?e"
    using a by (simp add: parseLine_classify classify_json)
  moreover have "EntryContent ?e = unknownMessageType" by (simp add: f)
  moreover have "printSingleEntry lib ?e \<noteq> []"
    by (rule printSingleEntry_nonempty) (simp add: f unknownMessageType_def)
  ultimately show "\<exists>e. fst (parseLine lib w t line) = Some e \<and> EntryContent e = unknownMessageType
               \<and> printSingleEntry lib e \<noteq> []"
    by blast
qed

section \<open>Examples of empty and unrecognized content\<close>

lemma example_trims:
  "TrimSpace emptyAssistantLine = emptyAssistantLine"
  "TrimSpace resultLine = resultLine"
  "TrimSpace sentinelLine = sentinelLine"
  "TrimSpace ''Unknown message type'' = ''Unknown message type''"
  by (simp_all add: TrimSpace_def emptyAssistantLine_def resultLine_def sentinelLine_def
      asciiSpace_def space2_def space3_def)

lemma example_times: "formatRelativeTime 0 = ''00:00''"
  by (simp add: formatRelativeTime_def quo_def rem_def fmt_d_def)

text \<open>
  The theorem at an assistant message with no content items.
\<close>

theorem empty_content_not_printed_but_annotated_witness:
  "fst (parseLine exampleLib initialWorld 0 emptyAssistantLine) =
     Some \<lparr>LineNumber = 1, Speaker = ''ASSISTANT'', EntryContent = [], Timestamp = ''00:00'',
            IsJSON = True, RawLine = emptyAssistantLine\<rparr>
   \<and> printSingleEntry exampleLib
        \<lparr>LineNumber = 1, Speaker = ''ASSISTANT'', EntryContent = [], Timestamp = ''00:00'',
          IsJSON = True, RawLine = emptyAssistantLine\<rparr> = []
   \<and> (\<exists>cmd. annotationCommand exampleLib emptyAssistantLine 1 ''00:00'' = Some cmd
         \<and> streamLines exampleLib sinkOK [(emptyAssistantLine, 0)] initialWorld =
             initialWorld\<lparr>staticLineNum := 1,
               entries := [\<lparr>LineNumber = 1, Speaker = ''ASSISTANT'', EntryContent = [],
                             Timestamp = ''00:00'', IsJSON = True,
                             RawLine = emptyAssistantLine\<rparr>],
               annotateCalls := [cmd], logOutput := []\<rparr>)"
proof -
  have h: "HasPrefix emptyAssistantLine ''{''" "emptyAssistantLine \<noteq> []"
    by (simp_all add: HasPrefix_def emptyAssistantLine_def)
  have u: "Unmarshal exampleLib emptyAssistantLine =
      Some \<lparr>Type = ''assistant'', Subtype = [], Content = [], SessionID = [], Model = []\<rparr>"
    by (simp add: exampleLib_def)
  have p: "fst (parseLine exampleLib initialWorld 0 emptyAssistantLine) =
     Some \<lparr>LineNumber = 1, Speaker = ''ASSISTANT'', EntryContent = [], Timestamp = ''00:00'',
            IsJSON = True, RawLine = emptyAssistantLine\<rparr>"
    by (simp add: parseLine_def example_trims h u Let_def formatJSONMessage_def example_times
        initialWorld_def)
  have iw: "staticLineNum initialWorld = 0" "entries initialWorld = []"
    "annotateCalls initialWorld = []" "logOutput initialWorld = []"
    by (simp_all add: initialWorld_def)
  show ?thesis
    using empty_content_not_printed_but_annotated [OF p, of sinkOK]
    by (simp add: p iw sinkOK_def del: streamLines.simps)
qed

text \<open>
  C4 as stated fails at an assistant message with no content items: nothing is printed, but
  an entry with number 1 is made and an annotation is sent for it.
\<close>

theorem empty_content_still_annotated_counterexample:
  "map EntryContent (entries (streamLines exampleLib sinkOK [(emptyAssistantLine, 0)] initialWorld))
     = [[]]
   \<and> stdout (streamLines exampleLib sinkOK [(emptyAssistantLine, 0)] initialWorld) = []
   \<and> map annContext
        (annotateCalls (streamLines exampleLib sinkOK [(emptyAssistantLine, 0)] initialWorld))
     = [''chat-message-1'']
   \<and> staticLineNum (streamLines exampleLib sinkOK [(emptyAssistantLine, 0)] initialWorld) = 1"
proof -
  have h: "HasPrefix emptyAssistantLine ''{''" "emptyAssistantLine \<noteq> []"
    by (simp_all add: HasPrefix_def emptyAssistantLine_def)
  have u: "Unmarshal exampleLib emptyAssistantLine =
      Some \<lparr>Type = ''assistant'', Subtype = [], Content = [], SessionID = [], Model = []\<rparr>"
    by (simp add: exampleLib_def)
  have c: "classify exampleLib 0 0 emptyAssistantLine =
     Some \<lparr>LineNumber = 1, Speaker = ''ASSISTANT'', EntryContent = [], Timestamp = ''00:00'',
            IsJSON = True, RawLine = emptyAssistantLine\<rparr>"
    by (simp add: classify_def parseLine_def example_trims h u Let_def formatJSONMessage_def
        example_times initialWorld_def)
  have f: "fmt_d 0 1 = ''1''" by (simp add: fmt_d_def)
  have a: "map_option annContext (annotationCommand exampleLib emptyAssistantLine 1 ''00:00'')
            = Some ''chat-message-1''"
    by (simp add: annotationCommand_def example_trims h u Let_def f
        extractCleanJSONContentWithErrorCheck_def unknownMessageType_def)
  then obtain cmd where cmd: "annotationCommand exampleLib emptyAssistantLine 1 ''00:00'' = Some cmd"
    "annContext cmd = ''chat-message-1''"
    by auto
  have "streamLines exampleLib sinkOK [(emptyAssistantLine, 0)] initialWorld
          = initialWorld\<lparr>staticLineNum := 1,
               entries := [\<lparr>LineNumber = 1, Speaker = ''ASSISTANT'', EntryContent = [],
                             Timestamp = ''00:00'', IsJSON = True,
                             RawLine = emptyAssistantLine\<rparr>],
               annotateCalls := [cmd]\<rparr>"
    by (simp add: streamLines_Cons initialWorld_def c printSingleEntry_def
        createBuildkiteAnnotation_sinkOK cmd del: streamLines.simps(2))
  then show ?thesis by (simp add: initialWorld_def cmd)
qed

text \<open>
  The theorem at a message of kind \<^verbatim>\<open>result\<close> and at an assistant message whose only
  text is \<^verbatim>\<open>Unknown message type\<close>.
\<close>

theorem annotation_skipped_iff_decoded_unknown_content_witness:
  "annotationCommand exampleLib resultLine 1 ''00:00'' = None
   \<and> createBuildkiteAnnotation exampleLib sinkOK initialWorld resultLine 1 ''00:00'' = initialWorld
   \<and> (\<exists>e. fst (parseLine exampleLib initialWorld 0 resultLine) = Some e
         \<and> EntryContent e = unknownMessageType \<and> printSingleEntry exampleLib e \<noteq> [])
   \<and> annotationCommand exampleLib sentinelLine 1 ''00:00'' = None"
proof -
  let ?r = "\<lparr>Type = ''result'', Subtype = [], Content = [], SessionID = [], Model = []\<rparr> :: nat Message"
  let ?s = "\<lparr>Type = ''assistant'', Subtype = [],
                Content = [\<lparr>ItemType = ''text'', Text = ''Unknown message type'', Name = [],
                            Input = None, ItemContent = None, IsError = False\<rparr>],
                SessionID = [], Model = []\<rparr> :: nat Message"
  have h: "HasPrefix resultLine ''{''" "resultLine \<noteq> []" "HasPrefix sentinelLine ''{''"
    by (simp_all add: HasPrefix_def resultLine_def sentinelLine_def)
  have u: "Unmarshal exampleLib resultLine = Some ?r" "Unmarshal exampleLib sentinelLine = Some ?s"
    by (simp_all add: exampleLib_def resultLine_def emptyAssistantLine_def sentinelLine_def)
  have s: "fst (snd (extractCleanJSONContentWithErrorCheck exampleLib ?s)) = unknownMessageType"
    by (simp add: extractCleanJSONContentWithErrorCheck_def unknownMessageType_def)
  show ?thesis
    using annotation_skipped_iff_decoded_unknown_content
            [of exampleLib resultLine 1 "''00:00''" sinkOK initialWorld ?r 0]
          annotation_skipped_iff_decoded_unknown_content
            [of exampleLib sentinelLine 1 "''00:00''" sinkOK initialWorld ?s 0]
    by (simp add: example_trims h u s)
qed

text \<open>
  C5 as stated fails at the plain line \<^verbatim>\<open>Unknown message type\<close>: the content of its entry
  is that text, and an annotation is sent all the same.
\<close>

theorem plain_sentinel_text_annotated_counterexample:
  "map EntryContent
     (entries (streamLines exampleLib sinkOK [(''Unknown message type'', 0)] initialWorld))
     = [unknownMessageType]
   \<and> map annContext
       (annotateCalls (streamLines exampleLib sinkOK [(''Unknown message type'', 0)] initialWorld))
     = [''chat-message-1'']"
proof -
  let ?l = "''Unknown message type''"
  let ?e = "\<lparr>LineNumber = 1, Speaker = ''SYSTEM'', EntryContent = ?l,
              Timestamp = ''00:00'', IsJSON = False, RawLine = ?l\<rparr>"
  have n: "TrimSpace ?l \<noteq> []" "\<not> HasPrefix (TrimSpace ?l) ''{''"
    by (simp_all add: example_trims HasPrefix_def)
  have c: "classify exampleLib 0 0 ?l = Some ?e"
    using classify_plain [OF n(1), of exampleLib 0 0] n(2)
    by (simp add: example_trims example_times)
  have f: "fmt_d 0 1 = ''1''" by (simp add: fmt_d_def)
  obtain cmd where cmd: "annotationCommand exampleLib ?l 1 ''00:00'' = Some cmd"
    "annContext cmd = ''chat-message-1''"
    using annotationCommand_plain [OF n, of exampleLib 1 "''00:00''"] by (simp add: f)
  have "streamLines exampleLib sinkOK [(?l, 0)] initialWorld
          = initialWorld\<lparr>staticLineNum := 1, entries := [?e],
               stdout := printSingleEntry exampleLib ?e, annotateCalls := [cmd]\<rparr>"
    by (simp add: streamLines_Cons initialWorld_def c createBuildkiteAnnotation_sinkOK cmd
        del: streamLines.simps(2))
  then show ?thesis by (simp add: initialWorld_def cmd unknownMessageType_def)
qed

end
